theory Spec2Isabelle
  imports Complex_Main
begin

section \<open>Python values, exceptions and messages\<close>

text \<open>
  The worker of \<^verbatim>\<open>taskiq/cli/async_task_runner.py\<close> moves dynamically typed values
  around. The values that matter here are the ones a JSON-like payload can carry.
\<close>

datatype pyval = PyNone | PyBool bool | PyInt int | PyStr string | PyList "pyval list"

text \<open>
  An exception is its class and its argument, a string. A class stands for its instances
  and the instances of its subclasses (pydantic's \<^verbatim>\<open>ValidationError\<close> is a
  \<^verbatim>\<open>ValueError\<close>), with one exception: \<open>StopIteration\<close> stands for the instances of
  exactly that type and \<open>StopIterationSubclass\<close> for those of its proper subclasses,
  which asyncio treats differently. \<open>FuturesCancelledError\<close> is
  \<^verbatim>\<open>concurrent.futures.CancelledError\<close>, an \<^verbatim>\<open>Exception\<close>; \<open>AsyncioCancelledError\<close> is
  \<^verbatim>\<open>asyncio.CancelledError\<close>, which derives from \<^verbatim>\<open>BaseException\<close> only (Python 3.8 and
  later), as \<^verbatim>\<open>KeyboardInterrupt\<close> and \<^verbatim>\<open>SystemExit\<close> do: an \<^verbatim>\<open>except Exception\<close>
  clause lets these three through.
\<close>

datatype exc_class =
    ValueError | RuntimeError | TypeError | KeyError
  | StopIteration | StopIterationSubclass | FuturesCancelledError
  | AsyncioCancelledError | KeyboardInterrupt | SystemExit

datatype pyexc = PyExc exc_class string

text \<open>\<^verbatim>\<open>isinstance(exc, Exception)\<close>: what \<^verbatim>\<open>except Exception\<close> catches.\<close>

fun is_Exception :: "pyexc \<Rightarrow> bool" where
  "is_Exception (PyExc AsyncioCancelledError msg) = False"
| "is_Exception (PyExc KeyboardInterrupt msg) = False"
| "is_Exception (PyExc SystemExit msg) = False"
| "is_Exception (PyExc c msg) = True"

text \<open>What \<^verbatim>\<open>except (ValueError, RuntimeError)\<close> in \<^verbatim>\<open>parse_params\<close> catches.\<close>

fun is_ValueError_or_RuntimeError :: "pyexc \<Rightarrow> bool" where
  "is_ValueError_or_RuntimeError (PyExc ValueError msg) = True"
| "is_ValueError_or_RuntimeError (PyExc RuntimeError msg) = True"
| "is_ValueError_or_RuntimeError (PyExc c msg) = False"

text \<open>
  \<^verbatim>\<open>TaskiqMessage\<close>: the decoded invocation. \<^verbatim>\<open>args\<close> is a list, \<^verbatim>\<open>kwargs\<close> a dict.
\<close>

record taskiq_message =
  task_id :: string
  task_name :: string
  labels :: "string \<rightharpoonup> string"
  args :: "pyval list"
  kwargs :: "string \<rightharpoonup> pyval"

text \<open>
  A declared type of a parameter, and \<^verbatim>\<open>inspect.Signature.parameters\<close>: the ordered
  mapping from parameter name to parameter. \<open>None\<close> is \<^verbatim>\<open>Parameter.empty\<close>, the
  parameter without annotation. The names of a Python signature are distinct.
\<close>

datatype annotation = AnnInt | AnnStr | AnnBool | AnnAny | AnnClass string

type_synonym signature = "(string \<times> annotation option) list"

text \<open>
  \<^verbatim>\<open>parse_obj_as(annot, value)\<close> belongs to pydantic, not to this repository: the
  functions below take it as the parameter \<open>P\<close>, which returns the converted value
  (\<open>Inr\<close>) or raises (\<open>Inl\<close>).
\<close>

type_synonym parser = "annotation \<Rightarrow> pyval \<Rightarrow> pyexc + pyval"

section \<open>parse_params\<close>

text \<open>\<^verbatim>\<open>message.kwargs.get(param_name)\<close>: \<^verbatim>\<open>None\<close> for a missing key.\<close>

definition kwargs_get :: "(string \<rightharpoonup> pyval) \<Rightarrow> string \<Rightarrow> pyval" where
  "kwargs_get kw param_name = (case kw param_name of None \<Rightarrow> PyNone | Some v \<Rightarrow> v)"

text \<open>
  The body of the \<^verbatim>\<open>for\<close> loop of \<^verbatim>\<open>parse_params\<close> (lines 63 to 85), as a recursion
  over \<^verbatim>\<open>signature.parameters.items()\<close> that threads \<^verbatim>\<open>argnum\<close> and the message, which the
  source mutates in place. An exception that the \<^verbatim>\<open>except\<close> clause does not catch leaves
  the function (\<open>Inl\<close>). The calls of \<^verbatim>\<open>logger.debug\<close> are not modelled.
\<close>

fun parse_loop :: "parser \<Rightarrow> signature \<Rightarrow> int \<Rightarrow> taskiq_message \<Rightarrow> pyexc + taskiq_message" where
  "parse_loop P [] argnum message = Inr message"
| "parse_loop P ((param_name, None) # ps) argnum message = parse_loop P ps argnum message"
| "parse_loop P ((param_name, Some annot) # ps) argnum message =
     (let argnum = argnum + 1 in
      if argnum \<ge> int (length (args message)) then
        (let v = kwargs_get (kwargs message) param_name in
         if v = PyNone then parse_loop P ps argnum message
         else (case P annot v of
                 Inr w \<Rightarrow>
                   parse_loop P ps argnum
                     (message\<lparr>kwargs := (kwargs message)(param_name \<mapsto> w)\<rparr>)
               | Inl exc \<Rightarrow>
                   if is_ValueError_or_RuntimeError exc then parse_loop P ps argnum message
                   else Inl exc))
      else
        (let v = args message ! nat argnum in
         if v = PyNone then parse_loop P ps argnum message
         else (case P annot v of
                 Inr w \<Rightarrow>
                   parse_loop P ps argnum
                     (message\<lparr>args := (args message)[nat argnum := w]\<rparr>)
               | Inl exc \<Rightarrow>
                   if is_ValueError_or_RuntimeError exc then parse_loop P ps argnum message
                   else Inl exc)))"

definition parse_params :: "parser \<Rightarrow> signature option \<Rightarrow> taskiq_message \<Rightarrow> pyexc + taskiq_message" where
  "parse_params P signature message =
     (case signature of
        None \<Rightarrow> Inr message
      | Some sg \<Rightarrow> parse_loop P sg (- 1) message)"


section \<open>run_task\<close>

text \<open>
  \<^verbatim>\<open>TaskiqResult\<close>. \<^verbatim>\<open>return_value\<close> is \<^verbatim>\<open>None\<close> when the handler did not return.
\<close>

record taskiq_result =
  is_err :: bool
  log :: string
  return_value :: pyval
  execution_time :: real

text \<open>
  One call of the target, as \<^verbatim>\<open>run_task\<close> observes it: the text that the target
  itself sent to the buffer of \<^verbatim>\<open>log_collector\<close> during the call, the difference of the
  two readings of \<^verbatim>\<open>time()\<close>, and the value returned or the exception raised by the body
  of the target.
\<close>

record call_outcome =
  emitted :: string
  elapsed :: real
  outcome :: "pyexc + pyval"

text \<open>
  The target callable: whether \<^verbatim>\<open>asyncio.iscoroutinefunction\<close> holds of it, what a
  call with \<^verbatim>\<open>*args, **kwargs\<close> does, and what \<^verbatim>\<open>inspect.signature\<close> returns for it.
\<close>

record task_function =
  is_coroutine :: bool
  call :: "pyval list \<Rightarrow> (string \<rightharpoonup> pyval) \<Rightarrow> call_outcome"
  inspect_signature :: signature

text \<open>
  \<^verbatim>\<open>TaskiqMiddleware\<close>: each hook, awaited through \<^verbatim>\<open>maybe_awaitable\<close>, returns or
  raises. The hooks receive the message and the result by reference; they are taken not
  to mutate them.
\<close>

record middleware =
  pre_execute :: "taskiq_message \<Rightarrow> pyexc + taskiq_message"
  on_error :: "taskiq_message \<Rightarrow> taskiq_result \<Rightarrow> pyexc \<Rightarrow> pyexc + unit"
  post_execute :: "taskiq_message \<Rightarrow> taskiq_result \<Rightarrow> pyexc + unit"

definition run_sync :: "task_function \<Rightarrow> taskiq_message \<Rightarrow> call_outcome" where
  "run_sync target message = call target (args message) (kwargs message)"

text \<open>
  What a coroutine raises to the code that awaits it (CPython 3.8 to 3.12): a
  \<^verbatim>\<open>StopIteration\<close> cannot leave a coroutine, the interpreter replaces it by a
  \<^verbatim>\<open>RuntimeError\<close>. \<^verbatim>\<open>run_task\<close> and \<^verbatim>\<open>async_listen_messages\<close> are coroutines, and so
  is a target of which \<^verbatim>\<open>asyncio.iscoroutinefunction\<close> holds.
\<close>

fun coroutine_raises :: "pyexc \<Rightarrow> pyexc" where
  "coroutine_raises (PyExc StopIteration msg) =
     PyExc RuntimeError ''coroutine raised StopIteration''"
| "coroutine_raises (PyExc StopIterationSubclass msg) =
     PyExc RuntimeError ''coroutine raised StopIteration''"
| "coroutine_raises exc = exc"

text \<open>Line 145, \<^verbatim>\<open>await target(*message.args, **message.kwargs)\<close>.\<close>

fun await_coroutine :: "pyexc + pyval \<Rightarrow> pyexc + pyval" where
  "await_coroutine (Inr v) = Inr v"
| "await_coroutine (Inl exc) = Inl (coroutine_raises exc)"

text \<open>
  Lines 147 to 152, \<^verbatim>\<open>await loop.run_in_executor(executor, run_sync, target, message)\<close>,
  from what the call in the worker thread came to (CPython 3.8 to 3.12). The exception of the call is copied
  into the future that is awaited. asyncio refuses to set a \<^verbatim>\<open>StopIteration\<close> on a
  future, so that this future is never done and the \<^verbatim>\<open>await\<close> never returns (\<open>None\<close>). An
  instance of a subclass of \<^verbatim>\<open>StopIteration\<close> is set, and when the \<^verbatim>\<open>await\<close> meets it, it
  ends the iteration of the future as a return would: the \<^verbatim>\<open>await\<close> evaluates to the
  value of the exception. A \<^verbatim>\<open>concurrent.futures.CancelledError\<close> is copied as an
  \<^verbatim>\<open>asyncio.CancelledError\<close>. Any other exception is raised by the \<^verbatim>\<open>await\<close> as it is.
  The worker never shuts the thread pool down, and the submission of the call is taken
  not to fail.
\<close>

fun await_run_in_executor :: "pyexc + pyval \<Rightarrow> (pyexc + pyval) option" where
  "await_run_in_executor (Inr v) = Some (Inr v)"
| "await_run_in_executor (Inl (PyExc StopIteration msg)) = None"
| "await_run_in_executor (Inl (PyExc StopIterationSubclass msg)) = Some (Inr (PyStr msg))"
| "await_run_in_executor (Inl (PyExc FuturesCancelledError msg)) =
     Some (Inl (PyExc AsyncioCancelledError msg))"
| "await_run_in_executor (Inl exc) = Some (Inl exc)"

text \<open>Lines 144 to 152: the two ways of awaiting the target.\<close>

definition await_target :: "task_function \<Rightarrow> taskiq_message \<Rightarrow> (pyexc + pyval) option" where
  "await_target target message =
     (if is_coroutine target
      then Some (await_coroutine (outcome (call target (args message) (kwargs message))))
      else await_run_in_executor (outcome (run_sync target message)))"

text \<open>Lines 171 to 178: the \<^verbatim>\<open>on_error\<close> hooks in order, outside every \<^verbatim>\<open>try\<close>.\<close>

fun on_error_loop :: "middleware list \<Rightarrow> taskiq_message \<Rightarrow> taskiq_result \<Rightarrow> pyexc \<Rightarrow> pyexc + unit" where
  "on_error_loop [] message result found_exception = Inr ()"
| "on_error_loop (mw # mws) message result found_exception =
     (case on_error mw message result found_exception of
        Inl exc \<Rightarrow> Inl exc
      | Inr u \<Rightarrow> on_error_loop mws message result found_exception)"

text \<open>
  The record of \<^verbatim>\<open>logger.error\<close> (line 155) is made inside the scope of
  \<^verbatim>\<open>log_collector\<close>, which is of \<^verbatim>\<open>taskiq.cli.log_collector\<close> and not in the file:
  \<open>E log_collector_format exc\<close> is the text that it adds to the buffer for that record.
\<close>

type_synonym error_record = "string \<Rightarrow> pyexc \<Rightarrow> string"

text \<open>
  \<^verbatim>\<open>run_task\<close> returns the result; the model returns with it the message, which
  \<^verbatim>\<open>parse_params\<close> has mutated in place and which the caller goes on using. \<open>None\<close> is a
  call that never returns, \<open>Some (Inl exc)\<close> one that raises \<open>exc\<close> to the code that
  awaits it. The call of \<^verbatim>\<open>parse_params\<close> (line 140) and the \<^verbatim>\<open>on_error\<close> hooks stand
  outside the \<^verbatim>\<open>try\<close>; \<^verbatim>\<open>except Exception\<close> (line 153) catches what the \<^verbatim>\<open>await\<close>
  raises unless it is a \<^verbatim>\<open>BaseException\<close> only.
\<close>

definition run_task ::
  "parser \<Rightarrow> error_record \<Rightarrow> task_function \<Rightarrow> signature option \<Rightarrow> taskiq_message \<Rightarrow> string
     \<Rightarrow> middleware list \<Rightarrow> (pyexc + (taskiq_message \<times> taskiq_result)) option" where
  "run_task P E target signature message log_collector_format middlewares =
     (case parse_params P signature message of
        Inl exc \<Rightarrow> Some (Inl (coroutine_raises exc))
      | Inr message \<Rightarrow>
          (case await_target target message of
             None \<Rightarrow> None
           | Some awaited \<Rightarrow>
               (case (case awaited of
                        Inr v \<Rightarrow> Inr (v, None)
                      | Inl exc \<Rightarrow>
                          if is_Exception exc then Inr (PyNone, Some exc) else Inl exc) of
                  Inl exc \<Rightarrow> Some (Inl (coroutine_raises exc))
                | Inr (returned, found_exception) \<Rightarrow>
                    (let r = call target (args message) (kwargs message);
                         raw_logs = emitted r @
                           (case found_exception of
                              None \<Rightarrow> []
                            | Some exc \<Rightarrow> E log_collector_format exc);
                         result = \<lparr>is_err = (found_exception \<noteq> None), log = raw_logs,
                                   return_value = returned, execution_time = elapsed r\<rparr>
                     in case found_exception of
                          None \<Rightarrow> Some (Inr (message, result))
                        | Some exc \<Rightarrow>
                            (case on_error_loop middlewares message result exc of
                               Inl exc' \<Rightarrow> Some (Inl (coroutine_raises exc'))
                             | Inr u \<Rightarrow> Some (Inr (message, result)))))))"

section \<open>Shutdown\<close>

text \<open>
  What \<^verbatim>\<open>broker.shutdown()\<close> returned: \<^verbatim>\<open>None\<close>, or an object, of which the worker uses
  \<^verbatim>\<open>str(result)\<close> only, which returns a text or raises.
\<close>

datatype returned = ReturnedNone | ReturnedObject "pyexc + string"

text \<open>
  \<^verbatim>\<open>exit_process\<close> receives the finished task of \<^verbatim>\<open>broker.shutdown()\<close>; \<^verbatim>\<open>task.result()\<close>
  returns what the task returned (\<open>Inr\<close>) or raises its exception (\<open>Inl\<close>; for a
  cancelled task, \<^verbatim>\<open>asyncio.CancelledError\<close>). \<^verbatim>\<open>str(result)\<close> is evaluated inside the
  \<^verbatim>\<open>try\<close> (line 202). The function logs, cancels the tasks of the loop and calls
  \<^verbatim>\<open>sys.exit(exitcode)\<close>: \<open>Inr exitcode\<close> in the model. An exception that
  \<^verbatim>\<open>except Exception\<close> does not catch leaves the function before \<^verbatim>\<open>sys.exit\<close> (\<open>Inl\<close>).
\<close>

datatype exit_event =
    InfoBrokerReturned string
  | WarningShuttingDown
  | WarningException pyexc
  | TaskCancelled nat
  | InfoWorkerKilled

definition exit_process :: "pyexc + returned \<Rightarrow> nat list \<Rightarrow> exit_event list \<times> (pyexc + int)" where
  "exit_process task all_tasks =
     (let exitcode = 0 in
      case (case task of
              Inl exc \<Rightarrow> Inl exc
            | Inr ReturnedNone \<Rightarrow> Inr []
            | Inr (ReturnedObject (Inl exc)) \<Rightarrow> Inl exc
            | Inr (ReturnedObject (Inr text)) \<Rightarrow> Inr [InfoBrokerReturned text]) of
        Inr logged \<Rightarrow>
          (logged @ map TaskCancelled all_tasks @ [InfoWorkerKilled], Inr exitcode)
      | Inl exc \<Rightarrow>
          if is_Exception exc
          then ([WarningShuttingDown, WarningException exc] @ map TaskCancelled all_tasks @
                  [InfoWorkerKilled], Inr 1)
          else ([], Inl exc))"

text \<open>
  The state that the handler of \<^verbatim>\<open>signal_handler\<close> reads and writes: the attribute
  \<^verbatim>\<open>broker._is_shutting_down\<close> (\<open>None\<close> while it is not set: \<^verbatim>\<open>getattr\<close> then gives
  \<^verbatim>\<open>False\<close>), the tasks it created on the loop with their done callbacks, and the
  signal numbers it logged.
\<close>

datatype coroutine = BrokerShutdown







section \<open>async_listen_messages\<close>

text \<open>\<^verbatim>\<open>BrokerMessage\<close>, the raw message of the transport.\<close>

record broker_message =
  bm_task_id :: string
  bm_task_name :: string
  bm_message :: string

record decorated_task =
  dt_task_name :: string
  original_func :: task_function

text \<open>
  What the worker uses of \<^verbatim>\<open>AsyncBroker\<close>: the registry (a dict, as an association
  list), \<^verbatim>\<open>formatter.loads\<close>, the middlewares, \<^verbatim>\<open>result_backend.set_result\<close> and
  \<^verbatim>\<open>startup\<close>.
\<close>

record broker =
  available_tasks :: "(string \<times> decorated_task) list"
  formatter_loads :: "broker_message \<Rightarrow> pyexc + taskiq_message"
  middlewares :: "middleware list"
  set_result :: "string \<Rightarrow> taskiq_result \<Rightarrow> pyexc + unit"
  startup :: "pyexc + unit"

record taskiq_args =
  no_parse :: bool
  max_threadpool_threads :: nat
  log_collector_format :: string

text \<open>
  What one pass of the loop leaves behind: the warnings it logs and the calls of
  \<^verbatim>\<open>run_task\<close> and \<^verbatim>\<open>set_result\<close>, in order.
\<close>

datatype worker_event =
    Received string
  | TaskNotFound string
  | CannotParse string pyexc
  | RunTask string
  | SetResult string taskiq_result
  | CantSetResult pyexc

text \<open>
  How a pass of the loop ends when it does not go on to the next message: an exception
  leaves the loop, or the pass never returns.
\<close>

datatype stop = Leaves pyexc | NeverReturns

fun pre_execute_loop :: "middleware list \<Rightarrow> taskiq_message \<Rightarrow> pyexc + taskiq_message" where
  "pre_execute_loop [] taskiq_msg = Inr taskiq_msg"
| "pre_execute_loop (mw # mws) taskiq_msg =
     (case pre_execute mw taskiq_msg of
        Inl exc \<Rightarrow> Inl exc
      | Inr taskiq_msg' \<Rightarrow> pre_execute_loop mws taskiq_msg')"

fun post_execute_loop :: "middleware list \<Rightarrow> taskiq_message \<Rightarrow> taskiq_result \<Rightarrow> pyexc + unit" where
  "post_execute_loop [] taskiq_msg result = Inr ()"
| "post_execute_loop (mw # mws) taskiq_msg result =
     (case post_execute mw taskiq_msg result of
        Inl exc \<Rightarrow> Inl exc
      | Inr u \<Rightarrow> post_execute_loop mws taskiq_msg result)"


text \<open>
  The body of \<^verbatim>\<open>async for message in broker.listen()\<close> (lines 291 to 336): the events
  of this message, and how the pass ends if it does not go on to the next message.
\<close>

definition process_message ::
  "parser \<Rightarrow> error_record \<Rightarrow> broker \<Rightarrow> taskiq_args \<Rightarrow> (string \<rightharpoonup> signature) \<Rightarrow> broker_message
     \<Rightarrow> worker_event list \<times> stop option" where
  "process_message P E brk cli_args task_signatures message =
     (case map_of (available_tasks brk) (bm_task_name message) of
        None \<Rightarrow> ([Received (bm_task_id message), TaskNotFound (bm_task_name message)], None)
      | Some task \<Rightarrow>
          (case formatter_loads brk message of
             Inl exc \<Rightarrow>
               if is_Exception exc
               then ([Received (bm_task_id message), CannotParse (bm_task_id message) exc], None)
               else ([Received (bm_task_id message)], Some (Leaves exc))
           | Inr taskiq_msg \<Rightarrow>
               (case pre_execute_loop (middlewares brk) taskiq_msg of
                  Inl exc \<Rightarrow> ([Received (bm_task_id message)], Some (Leaves exc))
                | Inr taskiq_msg \<Rightarrow>
                    (case run_task P E (original_func task)
                            (task_signatures (bm_task_name message)) taskiq_msg
                            (log_collector_format cli_args) (middlewares brk) of
                       None \<Rightarrow>
                         ([Received (bm_task_id message), RunTask (bm_task_name message)],
                          Some NeverReturns)
                     | Some (Inl exc) \<Rightarrow>
                         ([Received (bm_task_id message), RunTask (bm_task_name message)],
                          Some (Leaves exc))
                     | Some (Inr (taskiq_msg, result)) \<Rightarrow>
                         (case post_execute_loop (middlewares brk) taskiq_msg result of
                            Inl exc \<Rightarrow>
                              ([Received (bm_task_id message), RunTask (bm_task_name message)],
                               Some (Leaves exc))
                          | Inr u \<Rightarrow>
                              (case set_result brk (bm_task_id message) result of
                                 Inr u' \<Rightarrow>
                                   ([Received (bm_task_id message),
                                     RunTask (bm_task_name message),
                                     SetResult (bm_task_id message) result], None)
                               | Inl exc \<Rightarrow>
                                   if is_Exception exc
                                   then ([Received (bm_task_id message),
                                          RunTask (bm_task_name message),
                                          SetResult (bm_task_id message) result,
                                          CantSetResult exc], None)
                                   else ([Received (bm_task_id message),
                                          RunTask (bm_task_name message),
                                          SetResult (bm_task_id message) result],
                                         Some (Leaves exc))))))))"



section \<open>Notions used in the statements\<close>

text \<open>The typed parameters of a signature, in order: the ones the loop does not skip.\<close>

fun typed_params :: "signature \<Rightarrow> (string \<times> annotation) list" where
  "typed_params [] = []"
| "typed_params ((param_name, None) # ps) = typed_params ps"
| "typed_params ((param_name, Some annot) # ps) = (param_name, annot) # typed_params ps"

text \<open>
  What one attempt leaves in a slot: \<^verbatim>\<open>None\<close> is not converted, a conversion that
  returns replaces the value, one that raises keeps it.
\<close>

definition coerce_or_keep :: "parser \<Rightarrow> annotation \<Rightarrow> pyval \<Rightarrow> pyval" where
  "coerce_or_keep P annot v =
     (if v = PyNone then v else case P annot v of Inr w \<Rightarrow> w | Inl exc \<Rightarrow> v)"

text \<open>One pass of the loop of \<^verbatim>\<open>parse_params\<close> for a typed parameter, \<open>argnum\<close> incremented.\<close>

definition parse_step ::
  "parser \<Rightarrow> string \<Rightarrow> annotation \<Rightarrow> int \<Rightarrow> taskiq_message \<Rightarrow> pyexc + taskiq_message" where
  "parse_step P param_name annot argnum message =
     (if argnum \<ge> int (length (args message)) then
        (case kwargs message param_name of
           None \<Rightarrow> Inr message
         | Some v \<Rightarrow>
             if v = PyNone then Inr message
             else (case P annot v of
                     Inr w \<Rightarrow> Inr (message\<lparr>kwargs := (kwargs message)(param_name \<mapsto> w)\<rparr>)
                   | Inl exc \<Rightarrow> if is_ValueError_or_RuntimeError exc then Inr message else Inl exc))
      else
        (let v = args message ! nat argnum in
         if v = PyNone then Inr message
         else (case P annot v of
                 Inr w \<Rightarrow> Inr (message\<lparr>args := (args message)[nat argnum := w]\<rparr>)
               | Inl exc \<Rightarrow> if is_ValueError_or_RuntimeError exc then Inr message else Inl exc)))"

text \<open>
  The conversions that the loop of \<^verbatim>\<open>parse_params\<close> comes to on a message, in the order
  of the signature: for each typed parameter the declared type and the value that the
  loop pairs with it (the positional argument at \<open>argnum\<close>, or else the keyword argument
  of its name), unless that value is \<^verbatim>\<open>None\<close> or missing.
\<close>

fun attempts_from :: "signature \<Rightarrow> int \<Rightarrow> taskiq_message \<Rightarrow> (annotation \<times> pyval) list" where
  "attempts_from [] argnum message = []"
| "attempts_from ((param_name, None) # ps) argnum message = attempts_from ps argnum message"
| "attempts_from ((param_name, Some annot) # ps) argnum message =
     (let v = (if argnum + 1 \<ge> int (length (args message))
               then kwargs_get (kwargs message) param_name
               else args message ! nat (argnum + 1))
      in (if v = PyNone then [] else [(annot, v)]) @ attempts_from ps (argnum + 1) message)"

definition attempts :: "signature \<Rightarrow> taskiq_message \<Rightarrow> (annotation \<times> pyval) list" where
  "attempts sg message = attempts_from sg (- 1) message"

text \<open>
  The first exception, in a list of conversions, that is neither a \<^verbatim>\<open>ValueError\<close> nor a
  \<^verbatim>\<open>RuntimeError\<close>.
\<close>

fun first_uncaught :: "parser \<Rightarrow> (annotation \<times> pyval) list \<Rightarrow> pyexc option" where
  "first_uncaught P [] = None"
| "first_uncaught P ((annot, v) # xs) =
     (case P annot v of
        Inr w \<Rightarrow> first_uncaught P xs
      | Inl exc \<Rightarrow> if is_ValueError_or_RuntimeError exc then first_uncaught P xs else Some exc)"

text \<open>
  The two results that \<^verbatim>\<open>run_task\<close> builds (lines 164 to 169): for a handler that
  returned \<open>v\<close>, and for one whose exception \<open>exc\<close> was caught.
\<close>

definition ok_result :: "task_function \<Rightarrow> taskiq_message \<Rightarrow> pyval \<Rightarrow> taskiq_result" where
  "ok_result target message v =
     \<lparr>is_err = False, log = emitted (call target (args message) (kwargs message)),
      return_value = v,
      execution_time = elapsed (call target (args message) (kwargs message))\<rparr>"

definition error_result ::
  "error_record \<Rightarrow> string \<Rightarrow> task_function \<Rightarrow> taskiq_message \<Rightarrow> pyexc \<Rightarrow> taskiq_result" where
  "error_result E fmt target message exc =
     \<lparr>is_err = True,
      log = emitted (call target (args message) (kwargs message)) @ E fmt exc,
      return_value = PyNone,
      execution_time = elapsed (call target (args message) (kwargs message))\<rparr>"

text \<open>The events of each kind in a trace.\<close>

fun is_RunTask :: "worker_event \<Rightarrow> bool" where
  "is_RunTask (RunTask n) = True"
| "is_RunTask ev = False"

fun is_SetResult :: "worker_event \<Rightarrow> bool" where
  "is_SetResult (SetResult i r) = True"
| "is_SetResult ev = False"



section \<open>Concrete inputs\<close>

text \<open>
  A small converter for evaluation at concrete inputs, passed where the functions take
  \<open>P\<close>: a string of decimal digits converts to \<^verbatim>\<open>int\<close> and any other string raises
  \<^verbatim>\<open>ValueError\<close>, as in the scenarios of the specification; a class without validator
  raises \<^verbatim>\<open>RuntimeError\<close>. It is not pydantic's converter, which converts more.
\<close>

definition digit_of :: "char \<Rightarrow> nat option" where
  "digit_of c =
     (let n = (of_char c :: nat) in if 48 \<le> n \<and> n \<le> 57 then Some (n - 48) else None)"

fun digits_value :: "nat \<Rightarrow> string \<Rightarrow> nat option" where
  "digits_value acc [] = Some acc"
| "digits_value acc (c # cs) =
     (case digit_of c of None \<Rightarrow> None | Some d \<Rightarrow> digits_value (10 * acc + d) cs)"

fun demo_parse_obj_as :: parser where
  "demo_parse_obj_as AnnAny v = Inr v"
| "demo_parse_obj_as AnnInt (PyInt i) = Inr (PyInt i)"
| "demo_parse_obj_as AnnInt (PyStr s) =
     (case (if s = [] then None else digits_value 0 s) of
        Some n \<Rightarrow> Inr (PyInt (int n))
      | None \<Rightarrow> Inl (PyExc ValueError ''value is not a valid integer''))"
| "demo_parse_obj_as AnnInt v = Inl (PyExc ValueError ''value is not a valid integer'')"
| "demo_parse_obj_as AnnStr (PyStr s) = Inr (PyStr s)"
| "demo_parse_obj_as AnnStr v = Inl (PyExc ValueError ''str type expected'')"
| "demo_parse_obj_as AnnBool (PyBool b) = Inr (PyBool b)"
| "demo_parse_obj_as AnnBool v = Inl (PyExc ValueError ''value could not be parsed to a boolean'')"
| "demo_parse_obj_as (AnnClass c) v = Inl (PyExc RuntimeError ''no validator found'')"

text \<open>A converter whose validator raises \<^verbatim>\<open>KeyError\<close>, which pydantic does not wrap.\<close>

definition raising_parse_obj_as :: parser where
  "raising_parse_obj_as annot v = Inl (PyExc KeyError ''validator'')"

definition demo_message :: "pyval list \<Rightarrow> (string \<rightharpoonup> pyval) \<Rightarrow> taskiq_message" where
  "demo_message as kw =
     \<lparr>task_id = ''id-1'', task_name = ''demo'', labels = Map.empty, args = as, kwargs = kw\<rparr>"

text \<open>A text for the record of \<^verbatim>\<open>logger.error\<close>, whatever the format.\<close>

definition demo_error_record :: error_record where
  "demo_error_record fmt exc = ''Exception found while executing function''"

text \<open>
  The task of the scenarios of the specification, \<^verbatim>\<open>def add(a: int, b: int) -> int\<close>
  with the body \<^verbatim>\<open>return a + b\<close>: on two integers it returns their sum, on two strings
  their concatenation, and on anything else the call or \<^verbatim>\<open>+\<close> raises \<^verbatim>\<open>TypeError\<close>.
\<close>

fun add_call :: "pyval list \<Rightarrow> (string \<rightharpoonup> pyval) \<Rightarrow> call_outcome" where
  "add_call [PyInt a, PyInt b] kw =
     \<lparr>emitted = ''adding'', elapsed = 1, outcome = Inr (PyInt (a + b))\<rparr>"
| "add_call [PyStr a, PyStr b] kw =
     \<lparr>emitted = ''adding'', elapsed = 1, outcome = Inr (PyStr (a @ b))\<rparr>"
| "add_call as kw =
     \<lparr>emitted = ''adding'', elapsed = 1,
      outcome = Inl (PyExc TypeError ''unsupported operand type(s)'')\<rparr>"

definition add_target :: task_function where
  "add_target =
     \<lparr>is_coroutine = False, call = add_call,
      inspect_signature = [(''a'', Some AnnInt), (''b'', Some AnnInt)]\<rparr>"

text \<open>
  A task without parameters that raises an instance of a subclass of \<^verbatim>\<open>StopIteration\<close>,
  \<^verbatim>\<open>class Done(StopIteration)\<close> with the body \<^verbatim>\<open>raise Done("done")\<close>, written as a function
  (\<open>False\<close>) or as a coroutine function (\<open>True\<close>).
\<close>

definition done_target :: "bool \<Rightarrow> task_function" where
  "done_target async =
     \<lparr>is_coroutine = async,
      call = (\<lambda>as kw. \<lparr>emitted = [], elapsed = 1,
                        outcome = Inl (PyExc StopIterationSubclass ''done'')\<rparr>),
      inspect_signature = []\<rparr>"

text \<open>
  A plain function that lets a \<^verbatim>\<open>StopIteration\<close> out, with the body
  \<^verbatim>\<open>return next(iter([]))\<close>.
\<close>

definition exhausted_target :: task_function where
  "exhausted_target =
     \<lparr>is_coroutine = False,
      call = (\<lambda>as kw. \<lparr>emitted = [], elapsed = 1, outcome = Inl (PyExc StopIteration [])\<rparr>),
      inspect_signature = []\<rparr>"

definition quiet_middleware :: middleware where
  "quiet_middleware =
     \<lparr>pre_execute = (\<lambda>m. Inr m), on_error = (\<lambda>m r e. Inr ()), post_execute = (\<lambda>m r. Inr ())\<rparr>"

definition failing_on_error :: middleware where
  "failing_on_error =
     \<lparr>pre_execute = (\<lambda>m. Inr m),
      on_error = (\<lambda>m r e. Inl (PyExc RuntimeError ''on_error failed'')),
      post_execute = (\<lambda>m r. Inr ())\<rparr>"

definition failing_pre_execute :: middleware where
  "failing_pre_execute =
     \<lparr>pre_execute = (\<lambda>m. Inl (PyExc RuntimeError ''pre_execute failed'')),
      on_error = (\<lambda>m r e. Inr ()),
      post_execute = (\<lambda>m r. Inr ())\<rparr>"


text \<open>
  A broker with the task \<^verbatim>\<open>add\<close> registered. Its formatter fails on the payload
  \<^verbatim>\<open>bad\<close>, decodes the payload \<^verbatim>\<open>x3\<close> to the arguments \<^verbatim>\<open>["x", "3"]\<close> and any other
  payload to the arguments \<^verbatim>\<open>["2", "3"]\<close>.
\<close>

definition demo_loads :: "broker_message \<Rightarrow> pyexc + taskiq_message" where
  "demo_loads message =
     (if bm_message message = ''bad'' then Inl (PyExc ValueError ''cannot decode'')
      else Inr \<lparr>task_id = bm_task_id message, task_name = bm_task_name message,
                labels = Map.empty,
                args = (if bm_message message = ''x3'' then [PyStr ''x'', PyStr ''3'']
                        else [PyStr ''2'', PyStr ''3'']),
                kwargs = Map.empty\<rparr>)"

definition demo_broker :: "middleware list \<Rightarrow> broker" where
  "demo_broker mws =
     \<lparr>available_tasks = [(''add'', \<lparr>dt_task_name = ''add'', original_func = add_target\<rparr>)],
      formatter_loads = demo_loads,
      middlewares = mws,
      set_result = (\<lambda>i r. Inr ()),
      startup = Inr ()\<rparr>"

definition demo_args :: taskiq_args where
  "demo_args = \<lparr>no_parse = False, max_threadpool_threads = 4, log_collector_format = ''%(message)s''\<rparr>"

text \<open>The signatures that \<^verbatim>\<open>async_listen_messages\<close> computes for this broker.\<close>

definition demo_signatures :: "string \<rightharpoonup> signature" where
  "demo_signatures = [''add'' \<mapsto> [(''a'', Some AnnInt), (''b'', Some AnnInt)]]"

definition raw_message :: "string \<Rightarrow> string \<Rightarrow> string \<Rightarrow> broker_message" where
  "raw_message i n payload = \<lparr>bm_task_id = i, bm_task_name = n, bm_message = payload\<rparr>"

section \<open>Properties of parse_params\<close>

lemma parse_loop_typed:
  "parse_loop P ((param_name, Some annot) # ps) argnum message =
     (case parse_step P param_name annot (argnum + 1) message of
        Inl exc \<Rightarrow> Inl exc
      | Inr message' \<Rightarrow> parse_loop P ps (argnum + 1) message')"
  by (simp add: parse_step_def Let_def kwargs_get_def split: sum.splits option.splits)

declare parse_loop.simps(3) [simp del]

lemma parse_step_args:
  assumes "parse_step P param_name annot k m = Inr m'" and "0 \<le> k"
  shows "args m' =
     (if k < int (length (args m))
      then (args m)[nat k := coerce_or_keep P annot (args m ! nat k)]
      else args m)"
  using assms
  by (auto simp: parse_step_def coerce_or_keep_def Let_def split: sum.splits option.splits if_splits)
     (metis list_update_id)+

lemma parse_step_kwargs:
  assumes "parse_step P param_name annot k m = Inr m'"
  shows "kwargs m' =
     (if int (length (args m)) \<le> k
      then (case kwargs m param_name of
              None \<Rightarrow> kwargs m
            | Some v \<Rightarrow> (kwargs m)(param_name \<mapsto> coerce_or_keep P annot v))
      else kwargs m)"
  using assms
  by (auto simp: parse_step_def coerce_or_keep_def Let_def fun_upd_idem split: sum.splits option.splits if_splits)

lemma parse_step_rest:
  assumes "parse_step P param_name annot k m = Inr m'"
  shows "task_id m' = task_id m \<and> task_name m' = task_name m \<and> labels m' = labels m"
  using assms
  by (auto simp: parse_step_def Let_def split: sum.splits option.splits if_splits)

lemma parse_loop_length:
  "parse_loop P ps n m = Inr m' \<Longrightarrow> - 1 \<le> n \<Longrightarrow> length (args m') = length (args m)"
proof (induction ps arbitrary: n m)
  case Nil
  then show ?case by simp
next
  case (Cons p ps)
  obtain param_name ao where p: "p = (param_name, ao)" by (cases p)
  show ?case
  proof (cases ao)
    case None
    with p Cons show ?thesis by simp
  next
    case (Some annot)
    with p Cons.prems obtain m1
      where st: "parse_step P param_name annot (n + 1) m = Inr m1"
        and lp: "parse_loop P ps (n + 1) m1 = Inr m'"
      by (auto simp: parse_loop_typed split: sum.splits)
    from parse_step_args[OF st] Cons.prems(2) have "length (args m1) = length (args m)"
      by (simp split: if_splits)
    with Cons.IH[OF lp] Cons.prems(2) show ?thesis by simp
  qed
qed

lemma parse_loop_args:
  "parse_loop P ps n m = Inr m' \<Longrightarrow> - 1 \<le> n \<Longrightarrow> i < length (args m) \<Longrightarrow>
     args m' ! i =
       (if n < int i \<and> nat (int i - n - 1) < length (typed_params ps)
        then coerce_or_keep P (snd (typed_params ps ! nat (int i - n - 1))) (args m ! i)
        else args m ! i)"
proof (induction ps arbitrary: n m)
  case Nil
  then show ?case by simp
next
  case (Cons p ps)
  obtain param_name ao where p: "p = (param_name, ao)" by (cases p)
  show ?case
  proof (cases ao)
    case None
    with p Cons show ?thesis by simp
  next
    case (Some annot)
    with p Cons.prems obtain m1
      where st: "parse_step P param_name annot (n + 1) m = Inr m1"
        and lp: "parse_loop P ps (n + 1) m1 = Inr m'"
      by (auto simp: parse_loop_typed split: sum.splits)
    note a1 = parse_step_args[OF st]
    from a1 Cons.prems(2) have len: "length (args m1) = length (args m)"
      by (simp split: if_splits)
    from Cons.IH[OF lp] Cons.prems(2,3) len
    have ih: "args m' ! i =
       (if n + 1 < int i \<and> nat (int i - (n + 1) - 1) < length (typed_params ps)
        then coerce_or_keep P (snd (typed_params ps ! nat (int i - (n + 1) - 1))) (args m1 ! i)
        else args m1 ! i)" by simp
    show ?thesis
    proof (cases "int i = n + 1")
      case True
      then have "nat (n + 1) = i" by simp
      with True ih a1 Cons.prems(2,3) p Some show ?thesis by simp
    next
      case False
      then have ne: "nat (n + 1) \<noteq> i" using Cons.prems(2) by linarith
      with a1 Cons.prems(2) have same: "args m1 ! i = args m ! i" by (simp split: if_splits)
      show ?thesis
      proof (cases "n + 1 < int i")
        case True
        then have "nat (int i - n - 1) = Suc (nat (int i - (n + 1) - 1))" by linarith
        with True ih same p Some show ?thesis by simp
      next
        case False
        with \<open>int i \<noteq> n + 1\<close> have "\<not> n < int i" by linarith
        with False ih same show ?thesis by simp
      qed
    qed
  qed
qed


lemma typed_params_names: "fst ` set (typed_params ps) \<subseteq> fst ` set ps"
proof (induction ps)
  case Nil
  show ?case by simp
next
  case (Cons p ps)
  obtain param_name ao where p: "p = (param_name, ao)" by (cases p)
  with Cons show ?case by (cases ao) auto
qed

lemma parse_loop_dom:
  "parse_loop P ps n m = Inr m' \<Longrightarrow> dom (kwargs m') = dom (kwargs m)"
proof (induction ps arbitrary: n m)
  case Nil
  then show ?case by simp
next
  case (Cons p ps)
  obtain param_name ao where p: "p = (param_name, ao)" by (cases p)
  show ?case
  proof (cases ao)
    case None
    with p Cons show ?thesis by simp
  next
    case (Some annot)
    with p Cons.prems obtain m1
      where st: "parse_step P param_name annot (n + 1) m = Inr m1"
        and lp: "parse_loop P ps (n + 1) m1 = Inr m'"
      by (auto simp: parse_loop_typed split: sum.splits)
    from parse_step_kwargs[OF st] have "dom (kwargs m1) = dom (kwargs m)"
      by (auto split: if_splits option.splits)
    with Cons.IH[OF lp] show ?thesis by simp
  qed
qed

lemma parse_loop_rest:
  "parse_loop P ps n m = Inr m' \<Longrightarrow>
     task_id m' = task_id m \<and> task_name m' = task_name m \<and> labels m' = labels m"
proof (induction ps arbitrary: n m)
  case Nil
  then show ?case by simp
next
  case (Cons p ps)
  obtain param_name ao where p: "p = (param_name, ao)" by (cases p)
  show ?case
  proof (cases ao)
    case None
    with p Cons show ?thesis by simp
  next
    case (Some annot)
    with p Cons.prems obtain m1
      where st: "parse_step P param_name annot (n + 1) m = Inr m1"
        and lp: "parse_loop P ps (n + 1) m1 = Inr m'"
      by (auto simp: parse_loop_typed split: sum.splits)
    from parse_step_rest[OF st] Cons.IH[OF lp] show ?thesis by simp
  qed
qed

lemma parse_loop_kwargs_other:
  "parse_loop P ps n m = Inr m' \<Longrightarrow> name \<notin> fst ` set (typed_params ps) \<Longrightarrow>
     kwargs m' name = kwargs m name"
proof (induction ps arbitrary: n m)
  case Nil
  then show ?case by simp
next
  case (Cons p ps)
  obtain param_name ao where p: "p = (param_name, ao)" by (cases p)
  show ?case
  proof (cases ao)
    case None
    with p Cons show ?thesis by simp
  next
    case (Some annot)
    with p Cons.prems obtain m1
      where st: "parse_step P param_name annot (n + 1) m = Inr m1"
        and lp: "parse_loop P ps (n + 1) m1 = Inr m'"
      by (auto simp: parse_loop_typed split: sum.splits)
    from Cons.prems(2) p Some have ne: "name \<noteq> param_name"
      and notin: "name \<notin> fst ` set (typed_params ps)" by auto
    from parse_step_kwargs[OF st] ne have "kwargs m1 name = kwargs m name"
      by (auto split: if_splits option.splits)
    with Cons.IH[OF lp notin] show ?thesis by simp
  qed
qed

lemma parse_loop_kwargs:
  "parse_loop P ps n m = Inr m' \<Longrightarrow> - 1 \<le> n \<Longrightarrow> distinct (map fst ps) \<Longrightarrow>
   k < length (typed_params ps) \<Longrightarrow> typed_params ps ! k = (name, a) \<Longrightarrow>
     kwargs m' name =
       (if int (length (args m)) \<le> n + 1 + int k
        then map_option (coerce_or_keep P a) (kwargs m name)
        else kwargs m name)"
proof (induction ps arbitrary: n m k)
  case Nil
  then show ?case by simp
next
  case (Cons p ps)
  obtain param_name ao where p: "p = (param_name, ao)" by (cases p)
  show ?case
  proof (cases ao)
    case None
    with p Cons.prems Cons.IH[of n m k] show ?thesis by simp
  next
    case (Some annot)
    with p Cons.prems obtain m1
      where st: "parse_step P param_name annot (n + 1) m = Inr m1"
        and lp: "parse_loop P ps (n + 1) m1 = Inr m'"
      by (auto simp: parse_loop_typed split: sum.splits)
    from parse_step_args[OF st] Cons.prems(2) have len: "length (args m1) = length (args m)"
      by (simp split: if_splits)
    note kw = parse_step_kwargs[OF st]
    from Cons.prems(3) p have fresh: "param_name \<notin> fst ` set ps" and dist: "distinct (map fst ps)"
      by auto
    show ?thesis
    proof (cases k)
      case 0
      with Cons.prems(5) p Some have eq: "name = param_name" "a = annot" by simp_all
      from fresh typed_params_names[of ps] eq have "name \<notin> fst ` set (typed_params ps)" by blast
      from parse_loop_kwargs_other[OF lp this] have "kwargs m' name = kwargs m1 name" .
      with kw eq 0 show ?thesis by (auto split: option.splits)
    next
      case (Suc k')
      with Cons.prems(4,5) p Some have k': "k' < length (typed_params ps)"
        and at: "typed_params ps ! k' = (name, a)" by simp_all
      then have "name \<in> fst ` set (typed_params ps)" by (metis fst_conv image_eqI nth_mem)
      with typed_params_names[of ps] fresh have ne: "name \<noteq> param_name" by blast
      with kw have same: "kwargs m1 name = kwargs m name" by (auto split: option.splits)
      from Cons.IH[OF lp _ dist k' at] Cons.prems(2) len same Suc show ?thesis
        by (simp add: algebra_simps)
    qed
  qed
qed

lemma parse_params_demo_mixed:
  "parse_params demo_parse_obj_as
     (Some [(''a'', Some AnnInt), (''b'', None), (''c'', Some AnnInt)])
     (demo_message [PyStr ''2'', PyStr ''x'', PyStr ''3''] Map.empty)
   = Inr (demo_message [PyInt 2, PyStr ''x'', PyStr ''3''] Map.empty)"
  by (simp add: parse_params_def demo_message_def parse_loop.simps kwargs_get_def Let_def
        digit_of_def)

subsection \<open>Positional alignment\<close>

text \<open>
  C1 (the code departs from the claim): with the signature \<^verbatim>\<open>(a, b: int)\<close> and the
  positional arguments \<^verbatim>\<open>["5", "3"]\<close>, the claim has the typed parameter \<^verbatim>\<open>b\<close>, at
  position 1 of the signature, coerce the argument at index 1 and leave index 0 alone.
  The loop skips \<^verbatim>\<open>a\<close> before it increments \<^verbatim>\<open>argnum\<close>, so \<^verbatim>\<open>b\<close> coerces index 0:
  the arguments come out as \<^verbatim>\<open>[5, "3"]\<close>.
\<close>

theorem parse_params_untyped_shifts_positional:
  "parse_params demo_parse_obj_as (Some [(''a'', None), (''b'', Some AnnInt)])
     (demo_message [PyStr ''5'', PyStr ''3''] Map.empty)
   = Inr (demo_message [PyInt 5, PyStr ''3''] Map.empty)"
  by (simp add: parse_params_def demo_message_def parse_loop.simps kwargs_get_def Let_def
        digit_of_def)

text \<open>
  What the loop does in general: the positional argument at index \<open>i\<close> is converted
  with the declared type of the \<open>i\<close>-th typed parameter, whatever untyped parameters
  stand before it in the signature.
\<close>

theorem parse_params_positional:
  assumes "parse_params P (Some sg) m = Inr m'" and "i < length (args m)"
  shows "args m' ! i =
     (if i < length (typed_params sg)
      then coerce_or_keep P (snd (typed_params sg ! i)) (args m ! i)
      else args m ! i)"
  using parse_loop_args[of P sg "- 1" m m' i] assms
  by (simp add: parse_params_def)

theorem parse_params_positional_witness:
  "args (demo_message [PyInt 2, PyStr ''x'', PyStr ''3''] Map.empty) ! 1 =
     coerce_or_keep demo_parse_obj_as AnnInt (PyStr ''x'')"
  using parse_params_positional[OF parse_params_demo_mixed, of 1]
  by (simp add: demo_message_def)

subsection \<open>Frame\<close>

text \<open>
  C10 (the code departs from the claim): with the signature \<^verbatim>\<open>(a, b: int)\<close>, the
  positional arguments \<^verbatim>\<open>["7"]\<close> and the keyword arguments \<^verbatim>\<open>{"b": "3"}\<close>, the only
  positional argument belongs to the untyped parameter \<^verbatim>\<open>a\<close>, and the claim has it
  stay the original. The loop converts it with the type of \<^verbatim>\<open>b\<close>, and leaves the
  value of \<^verbatim>\<open>b\<close> unconverted.
\<close>

theorem parse_params_rewrites_untyped_argument:
  "\<exists>m'. parse_params demo_parse_obj_as (Some [(''a'', None), (''b'', Some AnnInt)])
          (demo_message [PyStr ''7''] [''b'' \<mapsto> PyStr ''3'']) = Inr m'
        \<and> args m' = [PyInt 7] \<and> kwargs m' ''b'' = Some (PyStr ''3'')"
  by (simp add: parse_params_def demo_message_def parse_loop.simps kwargs_get_def Let_def
        digit_of_def)

lemma parse_loop_kwargs_None:
  "parse_loop P ps n m = Inr m' \<Longrightarrow> kwargs m name = Some PyNone \<Longrightarrow>
     kwargs m' name = Some PyNone"
proof (induction ps arbitrary: n m)
  case Nil
  then show ?case by simp
next
  case (Cons p ps)
  obtain param_name ao where p: "p = (param_name, ao)" by (cases p)
  show ?case
  proof (cases ao)
    case None
    with p Cons show ?thesis by simp
  next
    case (Some annot)
    with p Cons.prems obtain m1
      where st: "parse_step P param_name annot (n + 1) m = Inr m1"
        and lp: "parse_loop P ps (n + 1) m1 = Inr m'"
      by (auto simp: parse_loop_typed split: sum.splits)
    from parse_step_kwargs[OF st] Cons.prems(2) have "kwargs m1 name = Some PyNone"
      by (auto simp: coerce_or_keep_def split: if_splits option.splits)
    with Cons.IH[OF lp] show ?thesis by simp
  qed
qed

text \<open>
  The part of the frame that holds of the code: the number of positional arguments and
  the keys of the keyword arguments stay, a \<^verbatim>\<open>None\<close> stays, and so does the keyword
  argument of every name that is not a typed parameter.
\<close>

theorem parse_params_frame:
  assumes "parse_params P sg m = Inr m'"
  shows "length (args m') = length (args m) \<and> dom (kwargs m') = dom (kwargs m) \<and>
     (\<forall>i < length (args m). args m ! i = PyNone \<longrightarrow> args m' ! i = PyNone) \<and>
     (\<forall>name. kwargs m name = Some PyNone \<longrightarrow> kwargs m' name = Some PyNone) \<and>
     (\<forall>name sg'. sg = Some sg' \<and> name \<notin> fst ` set (typed_params sg') \<longrightarrow>
        kwargs m' name = kwargs m name)"
proof (cases sg)
  case None
  with assms show ?thesis by (simp add: parse_params_def)
next
  case (Some sg')
  with assms have lp: "parse_loop P sg' (- 1) m = Inr m'" by (simp add: parse_params_def)
  have "args m' ! i = PyNone" if "i < length (args m)" "args m ! i = PyNone" for i
    using parse_loop_args[OF lp _ that(1)] that(2) by (simp add: coerce_or_keep_def)
  with parse_loop_length[OF lp] parse_loop_dom[OF lp] parse_loop_kwargs_None[OF lp]
    parse_loop_kwargs_other[OF lp] Some
  show ?thesis by simp
qed

theorem parse_params_frame_witness:
  "length (args (demo_message [PyInt 2, PyStr ''x'', PyStr ''3''] Map.empty)) = 3"
  using parse_params_frame[OF parse_params_demo_mixed]
  by (simp add: demo_message_def)

subsection \<open>Conversions that fail\<close>

lemma first_uncaught_None:
  "first_uncaught P xs = None \<longleftrightarrow>
     (\<forall>(annot, v) \<in> set xs. \<forall>exc. P annot v = Inl exc \<longrightarrow> is_ValueError_or_RuntimeError exc)"
  by (induction xs rule: first_uncaught.induct) (auto split: sum.splits)

lemma first_uncaught_Some:
  "first_uncaught P xs = Some exc \<Longrightarrow> \<not> is_ValueError_or_RuntimeError exc"
  by (induction xs rule: first_uncaught.induct) (auto split: sum.splits if_splits)

text \<open>
  The conversions that are still to come do not depend on a slot that the loop has
  passed.
\<close>

lemma attempts_from_cong:
  assumes "length (args m1) = length (args m)"
    and "\<forall>i. n < int i \<longrightarrow> args m1 ! i = args m ! i"
    and "\<forall>name \<in> fst ` set ps. kwargs m1 name = kwargs m name"
    and "- 1 \<le> n"
  shows "attempts_from ps n m1 = attempts_from ps n m"
  using assms
proof (induction ps arbitrary: n)
  case Nil
  show ?case by simp
next
  case (Cons p ps)
  obtain param_name ao where p: "p = (param_name, ao)" by (cases p)
  show ?case
  proof (cases ao)
    case None
    with p Cons show ?thesis by simp
  next
    case (Some annot)
    from Cons.prems have ih: "attempts_from ps (n + 1) m1 = attempts_from ps (n + 1) m"
      by (intro Cons.IH) auto
    from Cons.prems(2,4) have "args m1 ! nat (n + 1) = args m ! nat (n + 1)" by simp
    moreover from Cons.prems(3) p have "kwargs m1 param_name = kwargs m param_name" by simp
    ultimately show ?thesis using p Some ih Cons.prems(1)
      by (simp add: kwargs_get_def)
  qed
qed

lemma attempts_from_step:
  assumes st: "parse_step P param_name annot (n + 1) m = Inr m1"
    and n: "- 1 \<le> n" and fresh: "param_name \<notin> fst ` set ps"
  shows "attempts_from ps (n + 1) m1 = attempts_from ps (n + 1) m"
proof (rule attempts_from_cong)
  from parse_step_args[OF st] n show "length (args m1) = length (args m)"
    by (simp split: if_splits)
  from parse_step_args[OF st] n show "\<forall>i. n + 1 < int i \<longrightarrow> args m1 ! i = args m ! i"
    by (auto split: if_splits)
  from parse_step_kwargs[OF st] fresh
  show "\<forall>name \<in> fst ` set ps. kwargs m1 name = kwargs m name"
    by (auto split: if_splits option.splits)
  from n show "- 1 \<le> n + 1" by simp
qed

text \<open>One pass of the loop, by the value that it pairs with the parameter.\<close>

lemma parse_step_skips:
  "v = (if k \<ge> int (length (args m)) then kwargs_get (kwargs m) param_name else args m ! nat k) \<Longrightarrow>
   v = PyNone \<Longrightarrow> parse_step P param_name annot k m = Inr m"
  by (cases "k \<ge> int (length (args m))")
     (auto simp: parse_step_def Let_def kwargs_get_def split: sum.splits option.splits)

lemma parse_step_raises:
  "v = (if k \<ge> int (length (args m)) then kwargs_get (kwargs m) param_name else args m ! nat k) \<Longrightarrow>
   v \<noteq> PyNone \<Longrightarrow> P annot v = Inl exc \<Longrightarrow>
   parse_step P param_name annot k m =
     (if is_ValueError_or_RuntimeError exc then Inr m else Inl exc)"
  by (cases "k \<ge> int (length (args m))")
     (auto simp: parse_step_def Let_def kwargs_get_def split: sum.splits option.splits)

lemma parse_step_returns:
  "parse_step P param_name annot k m = Inl exc \<Longrightarrow> \<not> is_ValueError_or_RuntimeError exc"
  by (auto simp: parse_step_def Let_def split: sum.splits option.splits if_splits)

lemma parse_step_converted:
  "P annot v = Inr w \<Longrightarrow>
   v = (if k \<ge> int (length (args m)) then kwargs_get (kwargs m) param_name else args m ! nat k) \<Longrightarrow>
   \<exists>m1. parse_step P param_name annot k m = Inr m1"
  by (cases "k \<ge> int (length (args m))")
     (auto simp: parse_step_def Let_def kwargs_get_def split: sum.splits option.splits)

lemma parse_loop_first_uncaught:
  assumes "distinct (map fst ps)" and "- 1 \<le> n"
  shows "case first_uncaught P (attempts_from ps n m) of
           None \<Rightarrow> (\<exists>m'. parse_loop P ps n m = Inr m')
         | Some exc \<Rightarrow> parse_loop P ps n m = Inl exc"
  using assms
proof (induction ps arbitrary: n m)
  case Nil
  show ?case by simp
next
  case (Cons p ps)
  obtain param_name ao where p: "p = (param_name, ao)" by (cases p)
  from Cons.prems(1) p have fresh: "param_name \<notin> fst ` set ps" and dist: "distinct (map fst ps)"
    by auto
  show ?case
  proof (cases ao)
    case None
    with p Cons.IH[OF dist Cons.prems(2), of m] show ?thesis by (simp split: option.splits)
  next
    case (Some annot)
    define v where "v = (if n + 1 \<ge> int (length (args m))
               then kwargs_get (kwargs m) param_name else args m ! nat (n + 1))"
    have att: "attempts_from (p # ps) n m =
        (if v = PyNone then [] else [(annot, v)]) @ attempts_from ps (n + 1) m"
      using p Some by (simp add: v_def Let_def)
    have n1: "- 1 \<le> n + 1" using Cons.prems(2) by simp
    have loop: "parse_loop P (p # ps) n m =
       (case parse_step P param_name annot (n + 1) m of
          Inl exc \<Rightarrow> Inl exc | Inr m1 \<Rightarrow> parse_loop P ps (n + 1) m1)"
      using p Some by (simp add: parse_loop_typed)
    have rest: "case first_uncaught P (attempts_from ps (n + 1) m) of
           None \<Rightarrow> (\<exists>m'. parse_loop P ps (n + 1) m1 = Inr m')
         | Some exc \<Rightarrow> parse_loop P ps (n + 1) m1 = Inl exc"
      if "parse_step P param_name annot (n + 1) m = Inr m1" for m1
      using Cons.IH[OF dist n1, of m1] attempts_from_step[OF that Cons.prems(2) fresh]
      by simp
    show ?thesis
    proof (cases "v = PyNone")
      case True
      have "parse_step P param_name annot (n + 1) m = Inr m"
        using v_def True by (rule parse_step_skips)
      with rest[OF this] loop att True show ?thesis by (simp split: option.splits)
    next
      case False
      show ?thesis
      proof (cases "P annot v")
        case (Inl exc)
        have raises: "parse_step P param_name annot (n + 1) m =
            (if is_ValueError_or_RuntimeError exc then Inr m else Inl exc)"
          using v_def False Inl by (rule parse_step_raises)
        show ?thesis
        proof (cases "is_ValueError_or_RuntimeError exc")
          case True
          with raises have "parse_step P param_name annot (n + 1) m = Inr m" by simp
          with rest[OF this] loop att False Inl True show ?thesis by (simp split: option.splits)
        next
          case no: False
          with raises have "parse_step P param_name annot (n + 1) m = Inl exc" by simp
          with loop att False Inl no show ?thesis by (simp split: option.splits)
        qed
      next
        case (Inr w)
        have "\<exists>m1. parse_step P param_name annot (n + 1) m = Inr m1"
          using Inr v_def by (rule parse_step_converted)
        then obtain m1
          where s1: "parse_step P param_name annot (n + 1) m = Inr m1" by blast
        with rest[OF this] loop att False Inr show ?thesis by (simp split: option.splits)
      qed
    qed
  qed
qed

text \<open>
  C5, counterexample: the claim has \<^verbatim>\<open>parse_params\<close> never raise, whatever the conversion
  raises. The \<^verbatim>\<open>except\<close> clause names \<^verbatim>\<open>ValueError\<close> and \<^verbatim>\<open>RuntimeError\<close> only; a
  \<^verbatim>\<open>KeyError\<close> out of the conversion leaves \<^verbatim>\<open>parse_params\<close>.
\<close>

theorem parse_params_uncaught_counterexample:
  "parse_params raising_parse_obj_as (Some [(''a'', Some AnnInt)])
     (demo_message [PyStr ''x''] Map.empty) = Inl (PyExc KeyError ''validator'')"
  by (simp add: parse_params_def demo_message_def parse_loop.simps raising_parse_obj_as_def
        Let_def)

text \<open>
  C5, as amended. When every conversion that the loop comes to returns or raises
  \<^verbatim>\<open>ValueError\<close> or \<^verbatim>\<open>RuntimeError\<close>, \<^verbatim>\<open>parse_params\<close> returns. Whenever it returns, a
  value whose conversion raised is left as it was: the positional argument at index \<open>k\<close>
  where the loop pairs it with the \<open>k\<close>-th typed parameter, and otherwise the keyword
  argument of that parameter's name. When a conversion that the loop comes to raises an
  exception of another class, \<^verbatim>\<open>parse_params\<close> raises: the first such exception, in the
  order of the signature, leaves it.
\<close>

theorem parse_params_keeps_unconvertible:
  assumes "distinct (map fst sg)"
  shows "((\<forall>(annot, v) \<in> set (attempts sg m).
             \<forall>exc. P annot v = Inl exc \<longrightarrow> is_ValueError_or_RuntimeError exc) \<longrightarrow>
          (\<exists>m'. parse_params P (Some sg) m = Inr m')) \<and>
     (\<forall>m' k name annot exc.
        parse_params P (Some sg) m = Inr m' \<and>
        k < length (typed_params sg) \<and> typed_params sg ! k = (name, annot) \<longrightarrow>
        (k < length (args m) \<and> P annot (args m ! k) = Inl exc \<longrightarrow> args m' ! k = args m ! k) \<and>
        (length (args m) \<le> k \<longrightarrow>
           (\<forall>v. kwargs m name = Some v \<and> P annot v = Inl exc \<longrightarrow> kwargs m' name = Some v))) \<and>
     ((\<exists>(annot, v) \<in> set (attempts sg m).
         \<exists>exc. P annot v = Inl exc \<and> \<not> is_ValueError_or_RuntimeError exc) \<longrightarrow>
      (\<exists>exc. parse_params P (Some sg) m = Inl exc \<and> \<not> is_ValueError_or_RuntimeError exc \<and>
             first_uncaught P (attempts sg m) = Some exc))"
proof -
  note fu = parse_loop_first_uncaught[OF assms, of "- 1" P m, simplified]
  have a: "\<exists>m'. parse_params P (Some sg) m = Inr m'"
    if "\<forall>(annot, v) \<in> set (attempts sg m).
          \<forall>exc. P annot v = Inl exc \<longrightarrow> is_ValueError_or_RuntimeError exc"
  proof -
    from that have "first_uncaught P (attempts_from sg (- 1) m) = None"
      by (simp add: first_uncaught_None attempts_def)
    with fu show ?thesis by (simp add: parse_params_def)
  qed
  have b1: "args m' ! k = args m ! k"
    if "parse_params P (Some sg) m = Inr m'"
       "k < length (typed_params sg)" "typed_params sg ! k = (name, annot)"
       "k < length (args m)" "P annot (args m ! k) = Inl exc" for m' k name annot exc
  proof -
    from that(1) have lp: "parse_loop P sg (- 1) m = Inr m'" by (simp add: parse_params_def)
    from parse_loop_args[OF lp _ that(4)] that show ?thesis
      by (simp add: coerce_or_keep_def)
  qed
  have b2: "kwargs m' name = Some v"
    if "parse_params P (Some sg) m = Inr m'"
       "k < length (typed_params sg)" "typed_params sg ! k = (name, annot)"
       "length (args m) \<le> k" "kwargs m name = Some v" "P annot v = Inl exc"
    for m' k name annot exc v
  proof -
    from that(1) have lp: "parse_loop P sg (- 1) m = Inr m'" by (simp add: parse_params_def)
    from parse_loop_kwargs[OF lp _ assms that(2,3)] that show ?thesis
      by (simp add: coerce_or_keep_def)
  qed
  have c: "\<exists>exc. parse_params P (Some sg) m = Inl exc \<and> \<not> is_ValueError_or_RuntimeError exc \<and>
             first_uncaught P (attempts sg m) = Some exc"
    if "\<exists>(annot, v) \<in> set (attempts sg m).
         \<exists>exc. P annot v = Inl exc \<and> \<not> is_ValueError_or_RuntimeError exc"
  proof -
    from that have "first_uncaught P (attempts sg m) \<noteq> None"
      unfolding first_uncaught_None by blast
    then obtain exc where e: "first_uncaught P (attempts sg m) = Some exc" by blast
    with fu have "parse_params P (Some sg) m = Inl exc"
      by (simp add: parse_params_def attempts_def)
    with e first_uncaught_Some[OF e] show ?thesis by blast
  qed
  from a b1 b2 c show ?thesis by blast
qed

theorem parse_params_keeps_unconvertible_witness:
  "distinct (map fst [(''a'', Some AnnInt), (''b'', Some AnnInt)]) \<and>
   attempts [(''a'', Some AnnInt), (''b'', Some AnnInt)]
     (demo_message [PyStr ''x'', PyStr ''3''] Map.empty)
     = [(AnnInt, PyStr ''x''), (AnnInt, PyStr ''3'')] \<and>
   demo_parse_obj_as AnnInt (PyStr ''x'') = Inl (PyExc ValueError ''value is not a valid integer'') \<and>
   (\<exists>m'. parse_params demo_parse_obj_as (Some [(''a'', Some AnnInt), (''b'', Some AnnInt)])
            (demo_message [PyStr ''x'', PyStr ''3''] Map.empty) = Inr m' \<and>
          args m' ! 0 = PyStr ''x'') \<and>
   raising_parse_obj_as AnnInt (PyStr ''x'') = Inl (PyExc KeyError ''validator'') \<and>
   (\<exists>exc. parse_params raising_parse_obj_as (Some [(''a'', Some AnnInt), (''b'', Some AnnInt)])
            (demo_message [PyStr ''x'', PyStr ''3''] Map.empty) = Inl exc \<and>
          \<not> is_ValueError_or_RuntimeError exc)"
proof -
  let ?sg = "[(''a'', Some AnnInt), (''b'', Some AnnInt)]"
  let ?m = "demo_message [PyStr ''x'', PyStr ''3''] Map.empty"
  have d: "distinct (map fst ?sg)" by simp
  have at: "attempts ?sg ?m = [(AnnInt, PyStr ''x''), (AnnInt, PyStr ''3'')]"
    by (simp add: attempts_def demo_message_def Let_def)
  have x: "demo_parse_obj_as AnnInt (PyStr ''x'')
      = Inl (PyExc ValueError ''value is not a valid integer'')"
    by (simp add: digit_of_def)
  have y: "demo_parse_obj_as AnnInt (PyStr ''3'') = Inr (PyInt 3)"
    by (simp add: digit_of_def)
  have k: "raising_parse_obj_as AnnInt (PyStr ''x'') = Inl (PyExc KeyError ''validator'')"
    by (simp add: raising_parse_obj_as_def)
  note t = parse_params_keeps_unconvertible[OF d, of ?m demo_parse_obj_as]
  from t at x y obtain m' where r: "parse_params demo_parse_obj_as (Some ?sg) ?m = Inr m'"
    by auto
  from t r have "0 < length (typed_params ?sg) \<and> typed_params ?sg ! 0 = (''a'', AnnInt) \<longrightarrow>
      (0 < length (args ?m) \<and> demo_parse_obj_as AnnInt (args ?m ! 0)
          = Inl (PyExc ValueError ''value is not a valid integer'') \<longrightarrow>
        args m' ! 0 = args ?m ! 0)"
    by blast
  with x have keep: "args m' ! 0 = PyStr ''x''" by (simp add: demo_message_def)
  from parse_params_keeps_unconvertible[OF d, of ?m raising_parse_obj_as] at k
  have "\<exists>exc. parse_params raising_parse_obj_as (Some ?sg) ?m = Inl exc \<and>
      \<not> is_ValueError_or_RuntimeError exc"
    by auto
  with d at x k r keep show ?thesis by blast
qed

section \<open>Properties of run_task\<close>

lemma coroutine_raises_BaseException:
  "\<not> is_Exception exc \<Longrightarrow> coroutine_raises exc = exc"
  by (induction exc rule: is_Exception.induct) simp_all

lemma run_task_cases:
  assumes "parse_params P sg m = Inr m1"
  shows "run_task P E target sg m fmt mws =
     (case await_target target m1 of
        None \<Rightarrow> None
      | Some (Inr v) \<Rightarrow> Some (Inr (m1, ok_result target m1 v))
      | Some (Inl exc) \<Rightarrow>
          if is_Exception exc then
            (case on_error_loop mws m1 (error_result E fmt target m1 exc) exc of
               Inl exc' \<Rightarrow> Some (Inl (coroutine_raises exc'))
             | Inr u \<Rightarrow> Some (Inr (m1, error_result E fmt target m1 exc)))
          else Some (Inl exc))"
  using assms
  by (simp add: run_task_def Let_def ok_result_def error_result_def
        coroutine_raises_BaseException split: sum.splits option.splits)

lemma run_task_parse_raises:
  "parse_params P sg m = Inl exc \<Longrightarrow>
   run_task P E target sg m fmt mws = Some (Inl (coroutine_raises exc))"
  by (simp add: run_task_def)

text \<open>What the \<^verbatim>\<open>await\<close> of the target comes to, by what the target did.\<close>

lemma await_target_returned:
  "outcome (call target (args m) (kwargs m)) = Inr v \<Longrightarrow> await_target target m = Some (Inr v)"
  by (simp add: await_target_def run_sync_def)

lemma await_target_coroutine:
  "is_coroutine target \<Longrightarrow> outcome (call target (args m) (kwargs m)) = Inl exc \<Longrightarrow>
   await_target target m = Some (Inl (coroutine_raises exc))"
  by (simp add: await_target_def)

lemma await_target_sync:
  "\<not> is_coroutine target \<Longrightarrow>
   outcome (call target (args m) (kwargs m)) = Inl (PyExc c msg) \<Longrightarrow>
   c \<noteq> StopIteration \<Longrightarrow> c \<noteq> StopIterationSubclass \<Longrightarrow> c \<noteq> FuturesCancelledError \<Longrightarrow>
   await_target target m = Some (Inl (PyExc c msg))"
  by (cases c) (simp_all add: await_target_def run_sync_def)

lemma await_target_raised:
  "await_target target m = Some (Inl exc) \<Longrightarrow>
   \<exists>c msg. outcome (call target (args m) (kwargs m)) = Inl (PyExc c msg) \<and>
           (is_coroutine target \<or> c \<noteq> StopIterationSubclass)"
proof (cases "outcome (call target (args m) (kwargs m))")
  case (Inr v)
  assume "await_target target m = Some (Inl exc)"
  with await_target_returned[OF Inr] show ?thesis by simp
next
  case (Inl e)
  assume a: "await_target target m = Some (Inl exc)"
  obtain c msg where e: "e = PyExc c msg" by (cases e)
  show ?thesis
  proof (cases "is_coroutine target")
    case True
    with Inl e show ?thesis by simp
  next
    case False
    with a Inl e have "c \<noteq> StopIterationSubclass"
      by (auto simp: await_target_def run_sync_def)
    with Inl e show ?thesis by simp
  qed
qed

lemma run_task_add_x_3:
  "run_task demo_parse_obj_as demo_error_record add_target
     (Some (inspect_signature add_target))
     (demo_message [PyStr ''x'', PyStr ''3''] Map.empty) ''%(message)s'' [quiet_middleware]
   = Some (Inr (demo_message [PyStr ''x'', PyInt 3] Map.empty,
          \<lparr>is_err = True, log = ''addingException found while executing function'',
           return_value = PyNone, execution_time = 1\<rparr>))"
  by (simp add: run_task_def parse_params_def add_target_def demo_message_def parse_loop.simps
        Let_def digit_of_def run_sync_def quiet_middleware_def kwargs_get_def
        await_target_def demo_error_record_def)

lemma run_task_add_2_3:
  "run_task demo_parse_obj_as demo_error_record add_target
     (Some (inspect_signature add_target))
     (demo_message [PyStr ''2'', PyStr ''3''] Map.empty) ''%(message)s'' [quiet_middleware]
   = Some (Inr (demo_message [PyInt 2, PyInt 3] Map.empty,
          \<lparr>is_err = False, log = ''adding'', return_value = PyInt 5, execution_time = 1\<rparr>))"
  by (simp add: run_task_def parse_params_def add_target_def demo_message_def parse_loop.simps
        Let_def digit_of_def run_sync_def quiet_middleware_def kwargs_get_def
        await_target_def)

text \<open>
  C7 (the code departs from the claim): a task that is a plain function and raises an
  instance of a subclass of \<^verbatim>\<open>StopIteration\<close>. The handler raised, and the claim has
  \<^verbatim>\<open>is_err\<close> true. The \<^verbatim>\<open>await\<close> of \<^verbatim>\<open>run_in_executor\<close> takes the exception for the end of
  the awaited future and evaluates to its value: \<^verbatim>\<open>run_task\<close> returns a result with
  \<^verbatim>\<open>is_err\<close> false and that value as \<^verbatim>\<open>return_value\<close>, and calls no \<^verbatim>\<open>on_error\<close> hook.
  The same task written as a coroutine function takes the other branch, where the
  exception is caught and \<^verbatim>\<open>is_err\<close> is true.
\<close>

theorem run_task_stop_iteration_subclass:
  "outcome (call (done_target False) [] Map.empty) = Inl (PyExc StopIterationSubclass ''done'') \<and>
   run_task demo_parse_obj_as demo_error_record (done_target False) (Some [])
     (demo_message [] Map.empty) ''%(message)s'' [failing_on_error]
   = Some (Inr (demo_message [] Map.empty,
          \<lparr>is_err = False, log = [], return_value = PyStr ''done'', execution_time = 1\<rparr>)) \<and>
   run_task demo_parse_obj_as demo_error_record (done_target True) (Some [])
     (demo_message [] Map.empty) ''%(message)s'' []
   = Some (Inr (demo_message [] Map.empty,
          \<lparr>is_err = True, log = ''Exception found while executing function'',
           return_value = PyNone, execution_time = 1\<rparr>))"
  by (simp add: run_task_def parse_params_def done_target_def demo_message_def
        Let_def run_sync_def await_target_def demo_error_record_def)

text \<open>
  What holds of \<^verbatim>\<open>is_err\<close> in the code. When the handler returns, \<^verbatim>\<open>run_task\<close> returns a
  result with \<^verbatim>\<open>is_err\<close> false. When the \<^verbatim>\<open>await\<close> of the handler raises an \<^verbatim>\<open>Exception\<close>
  and the \<^verbatim>\<open>on_error\<close> hooks return, it returns a result with \<^verbatim>\<open>is_err\<close> true. And in every
  result that it returns, \<^verbatim>\<open>is_err\<close> is true if and only if the handler raised, a plain
  function that raised an instance of a subclass of \<^verbatim>\<open>StopIteration\<close> apart.
\<close>

theorem run_task_is_err:
  "(parse_params P sg m = Inr m1 \<and> outcome (call target (args m1) (kwargs m1)) = Inr v \<longrightarrow>
      run_task P E target sg m fmt mws = Some (Inr (m1, ok_result target m1 v)) \<and>
      \<not> is_err (ok_result target m1 v)) \<and>
   (parse_params P sg m = Inr m1 \<and> await_target target m1 = Some (Inl exc) \<and>
    is_Exception exc \<and> on_error_loop mws m1 (error_result E fmt target m1 exc) exc = Inr () \<longrightarrow>
      run_task P E target sg m fmt mws = Some (Inr (m1, error_result E fmt target m1 exc)) \<and>
      is_err (error_result E fmt target m1 exc)) \<and>
   (run_task P E target sg m fmt mws = Some (Inr (m', r)) \<longrightarrow>
      (is_err r \<longleftrightarrow>
         (\<exists>c msg. outcome (call target (args m') (kwargs m')) = Inl (PyExc c msg) \<and>
                  (is_coroutine target \<or> c \<noteq> StopIterationSubclass))))"
proof -
  have a: "run_task P E target sg m fmt mws = Some (Inr (m1, ok_result target m1 v)) \<and>
      \<not> is_err (ok_result target m1 v)"
    if "parse_params P sg m = Inr m1" "outcome (call target (args m1) (kwargs m1)) = Inr v"
    using run_task_cases[OF that(1)] await_target_returned[OF that(2)]
    by (simp add: ok_result_def)
  have b: "run_task P E target sg m fmt mws = Some (Inr (m1, error_result E fmt target m1 exc)) \<and>
      is_err (error_result E fmt target m1 exc)"
    if "parse_params P sg m = Inr m1" "await_target target m1 = Some (Inl exc)"
       "is_Exception exc" "on_error_loop mws m1 (error_result E fmt target m1 exc) exc = Inr ()"
    using run_task_cases[OF that(1)] that(2,3,4)
    by (simp add: error_result_def)
  have c: "is_err r \<longleftrightarrow>
         (\<exists>c msg. outcome (call target (args m') (kwargs m')) = Inl (PyExc c msg) \<and>
                  (is_coroutine target \<or> c \<noteq> StopIterationSubclass))"
    if run: "run_task P E target sg m fmt mws = Some (Inr (m', r))"
  proof (cases "parse_params P sg m")
    case (Inl e)
    with run show ?thesis by (simp add: run_task_parse_raises)
  next
    case (Inr m1)
    note rc = run_task_cases[OF Inr, of E target fmt mws]
    show ?thesis
    proof (cases "await_target target m1")
      case None
      with run rc show ?thesis by simp
    next
      case (Some awaited)
      show ?thesis
      proof (cases awaited)
        case (Inl e)
        with run rc Some have m: "m' = m1" and r: "r = error_result E fmt target m1 e"
          by (auto split: if_splits sum.splits)
        from Some Inl await_target_raised[of target m1 e] m r show ?thesis
          by (simp add: error_result_def)
      next
        case (Inr v)
        with run rc Some have m: "m' = m1" and r: "r = ok_result target m1 v" by auto
        have "\<not> (\<exists>c msg. outcome (call target (args m1) (kwargs m1)) = Inl (PyExc c msg) \<and>
                  (is_coroutine target \<or> c \<noteq> StopIterationSubclass))"
        proof
          assume "\<exists>c msg. outcome (call target (args m1) (kwargs m1)) = Inl (PyExc c msg) \<and>
                  (is_coroutine target \<or> c \<noteq> StopIterationSubclass)"
          then obtain c msg where o: "outcome (call target (args m1) (kwargs m1)) = Inl (PyExc c msg)"
            and k: "is_coroutine target \<or> c \<noteq> StopIterationSubclass" by blast
          show False
          proof (cases "is_coroutine target")
            case True
            with o Some Inr show False by (simp add: await_target_def)
          next
            case False
            with k have "c \<noteq> StopIterationSubclass" by simp
            with False o Some Inr show False
              by (cases c) (simp_all add: await_target_def run_sync_def)
          qed
        qed
        with m r show ?thesis by (simp add: ok_result_def)
      qed
    qed
  qed
  from a b c show ?thesis by blast
qed

theorem run_task_is_err_witness:
  "run_task demo_parse_obj_as demo_error_record add_target
     (Some (inspect_signature add_target))
     (demo_message [PyStr ''x'', PyStr ''3''] Map.empty) ''%(message)s'' [quiet_middleware]
   = Some (Inr (demo_message [PyStr ''x'', PyInt 3] Map.empty,
          \<lparr>is_err = True, log = ''addingException found while executing function'',
           return_value = PyNone, execution_time = 1\<rparr>)) \<and>
   (\<exists>c msg. outcome (call add_target (args (demo_message [PyStr ''x'', PyInt 3] Map.empty))
                       (kwargs (demo_message [PyStr ''x'', PyInt 3] Map.empty)))
             = Inl (PyExc c msg) \<and> (is_coroutine add_target \<or> c \<noteq> StopIterationSubclass))"
  using run_task_is_err[of demo_parse_obj_as "Some (inspect_signature add_target)"
      "demo_message [PyStr ''x'', PyStr ''3''] Map.empty" m1 add_target v demo_error_record
      "''%(message)s''" "[quiet_middleware]" exc
      "demo_message [PyStr ''x'', PyInt 3] Map.empty"
      "\<lparr>is_err = True, log = ''addingException found while executing function'',
        return_value = PyNone, execution_time = 1\<rparr>"]
    run_task_add_x_3
  by simp

text \<open>
  What the thread pool makes of three exceptions of a plain function, whatever the
  middlewares: with \<^verbatim>\<open>StopIteration\<close> itself \<^verbatim>\<open>run_task\<close> never returns; a
  \<^verbatim>\<open>concurrent.futures.CancelledError\<close> leaves \<^verbatim>\<open>run_task\<close> as an
  \<^verbatim>\<open>asyncio.CancelledError\<close>; an instance of a subclass of \<^verbatim>\<open>StopIteration\<close> comes out as
  a result without error whose value is the value of the exception.
\<close>

theorem run_task_thread_pool:
  "(parse_params P sg m = Inr m1 \<and> \<not> is_coroutine target \<and>
    outcome (call target (args m1) (kwargs m1)) = Inl (PyExc StopIteration msg) \<longrightarrow>
      run_task P E target sg m fmt mws = None) \<and>
   (parse_params P sg m = Inr m1 \<and> \<not> is_coroutine target \<and>
    outcome (call target (args m1) (kwargs m1)) = Inl (PyExc FuturesCancelledError msg) \<longrightarrow>
      run_task P E target sg m fmt mws = Some (Inl (PyExc AsyncioCancelledError msg))) \<and>
   (parse_params P sg m = Inr m1 \<and> \<not> is_coroutine target \<and>
    outcome (call target (args m1) (kwargs m1)) = Inl (PyExc StopIterationSubclass msg) \<longrightarrow>
      run_task P E target sg m fmt mws = Some (Inr (m1, ok_result target m1 (PyStr msg))))"
proof -
  have "run_task P E target sg m fmt mws = None"
    if "parse_params P sg m = Inr m1" "\<not> is_coroutine target"
       "outcome (call target (args m1) (kwargs m1)) = Inl (PyExc StopIteration msg)"
    using run_task_cases[OF that(1)] that(2,3) by (simp add: await_target_def run_sync_def)
  moreover have "run_task P E target sg m fmt mws
      = Some (Inl (PyExc AsyncioCancelledError msg))"
    if "parse_params P sg m = Inr m1" "\<not> is_coroutine target"
       "outcome (call target (args m1) (kwargs m1)) = Inl (PyExc FuturesCancelledError msg)"
    using run_task_cases[OF that(1)] that(2,3) by (simp add: await_target_def run_sync_def)
  moreover have "run_task P E target sg m fmt mws
      = Some (Inr (m1, ok_result target m1 (PyStr msg)))"
    if "parse_params P sg m = Inr m1" "\<not> is_coroutine target"
       "outcome (call target (args m1) (kwargs m1)) = Inl (PyExc StopIterationSubclass msg)"
    using run_task_cases[OF that(1)] that(2,3) by (simp add: await_target_def run_sync_def)
  ultimately show ?thesis by blast
qed

theorem run_task_thread_pool_witness:
  "parse_params demo_parse_obj_as (Some []) (demo_message [] Map.empty)
     = Inr (demo_message [] Map.empty) \<and>
   \<not> is_coroutine exhausted_target \<and>
   outcome (call exhausted_target (args (demo_message [] Map.empty))
              (kwargs (demo_message [] Map.empty))) = Inl (PyExc StopIteration []) \<and>
   run_task demo_parse_obj_as demo_error_record exhausted_target (Some [])
     (demo_message [] Map.empty) ''%(message)s'' [quiet_middleware] = None"
proof -
  have p: "parse_params demo_parse_obj_as (Some []) (demo_message [] Map.empty)
     = Inr (demo_message [] Map.empty)"
    by (simp add: parse_params_def)
  have c: "\<not> is_coroutine exhausted_target" by (simp add: exhausted_target_def)
  have o: "outcome (call exhausted_target (args (demo_message [] Map.empty))
              (kwargs (demo_message [] Map.empty))) = Inl (PyExc StopIteration [])"
    by (simp add: exhausted_target_def)
  from run_task_thread_pool[of demo_parse_obj_as "Some []" "demo_message [] Map.empty"
      "demo_message [] Map.empty" exhausted_target "[]" demo_error_record "''%(message)s''"
      "[quiet_middleware]"] p c o
  show ?thesis by blast
qed

text \<open>
  C4, counterexample: the claim has \<^verbatim>\<open>run_task\<close> absorb an error of an \<^verbatim>\<open>on_error\<close>
  hook. The hooks run after the \<^verbatim>\<open>try\<close>: when the handler has raised and a hook
  raises, the exception of the hook leaves \<^verbatim>\<open>run_task\<close>.
\<close>

theorem run_task_on_error_raises_counterexample:
  "run_task demo_parse_obj_as demo_error_record add_target
     (Some (inspect_signature add_target))
     (demo_message [PyStr ''x'', PyStr ''3''] Map.empty) ''%(message)s'' [failing_on_error]
   = Some (Inl (PyExc RuntimeError ''on_error failed''))"
  by (simp add: run_task_def parse_params_def add_target_def demo_message_def parse_loop.simps
        Let_def digit_of_def run_sync_def failing_on_error_def kwargs_get_def
        await_target_def)

text \<open>
  C4, as amended. \<^verbatim>\<open>run_task\<close> returns a result when the \<^verbatim>\<open>await\<close> of the handler
  returns, and when that \<^verbatim>\<open>await\<close> raises an exception of class \<^verbatim>\<open>Exception\<close> and every
  \<^verbatim>\<open>on_error\<close> hook returns: the exception is then absorbed into the result. It raises to
  its caller the exception that \<^verbatim>\<open>parse_params\<close> lets through, the exception of the
  \<^verbatim>\<open>on_error\<close> hook that raises, and an exception outside \<^verbatim>\<open>Exception\<close> that the \<^verbatim>\<open>await\<close>
  of the handler raises.
\<close>

theorem run_task_returns:
  "(parse_params P sg m = Inl exc \<longrightarrow>
      run_task P E target sg m fmt mws = Some (Inl (coroutine_raises exc))) \<and>
   (parse_params P sg m = Inr m1 \<and> await_target target m1 = Some (Inr v) \<longrightarrow>
      run_task P E target sg m fmt mws = Some (Inr (m1, ok_result target m1 v))) \<and>
   (parse_params P sg m = Inr m1 \<and> await_target target m1 = Some (Inl exc) \<and>
    is_Exception exc \<and> on_error_loop mws m1 (error_result E fmt target m1 exc) exc = Inr () \<longrightarrow>
      run_task P E target sg m fmt mws = Some (Inr (m1, error_result E fmt target m1 exc))) \<and>
   (parse_params P sg m = Inr m1 \<and> await_target target m1 = Some (Inl exc) \<and>
    is_Exception exc \<and> on_error_loop mws m1 (error_result E fmt target m1 exc) exc = Inl exc' \<longrightarrow>
      run_task P E target sg m fmt mws = Some (Inl (coroutine_raises exc'))) \<and>
   (parse_params P sg m = Inr m1 \<and> await_target target m1 = Some (Inl exc) \<and>
    \<not> is_Exception exc \<longrightarrow>
      run_task P E target sg m fmt mws = Some (Inl exc))"
proof -
  have "run_task P E target sg m fmt mws = Some (Inl (coroutine_raises exc))"
    if "parse_params P sg m = Inl exc"
    using that by (rule run_task_parse_raises)
  moreover have "run_task P E target sg m fmt mws = Some (Inr (m1, ok_result target m1 v))"
    if "parse_params P sg m = Inr m1" "await_target target m1 = Some (Inr v)"
    using run_task_cases[OF that(1)] that(2) by simp
  moreover have "run_task P E target sg m fmt mws
      = Some (Inr (m1, error_result E fmt target m1 exc))"
    if "parse_params P sg m = Inr m1" "await_target target m1 = Some (Inl exc)"
       "is_Exception exc" "on_error_loop mws m1 (error_result E fmt target m1 exc) exc = Inr ()"
    using run_task_cases[OF that(1)] that(2,3,4) by simp
  moreover have "run_task P E target sg m fmt mws = Some (Inl (coroutine_raises exc'))"
    if "parse_params P sg m = Inr m1" "await_target target m1 = Some (Inl exc)"
       "is_Exception exc" "on_error_loop mws m1 (error_result E fmt target m1 exc) exc = Inl exc'"
    using run_task_cases[OF that(1)] that(2,3,4) by simp
  moreover have "run_task P E target sg m fmt mws = Some (Inl exc)"
    if "parse_params P sg m = Inr m1" "await_target target m1 = Some (Inl exc)"
       "\<not> is_Exception exc"
    using run_task_cases[OF that(1)] that(2,3) by simp
  ultimately show ?thesis by blast
qed

lemma add_x_3_coerced:
  "parse_params demo_parse_obj_as (Some (inspect_signature add_target))
     (demo_message [PyStr ''x'', PyStr ''3''] Map.empty)
   = Inr (demo_message [PyStr ''x'', PyInt 3] Map.empty)"
  by (simp add: parse_params_def add_target_def demo_message_def parse_loop.simps
        Let_def digit_of_def kwargs_get_def)

lemma add_x_3_awaited:
  "await_target add_target (demo_message [PyStr ''x'', PyInt 3] Map.empty)
   = Some (Inl (PyExc TypeError ''unsupported operand type(s)''))"
  by (simp add: await_target_def add_target_def demo_message_def run_sync_def)

theorem run_task_returns_witness:
  "parse_params demo_parse_obj_as (Some (inspect_signature add_target))
     (demo_message [PyStr ''x'', PyStr ''3''] Map.empty)
     = Inr (demo_message [PyStr ''x'', PyInt 3] Map.empty) \<and>
   await_target add_target (demo_message [PyStr ''x'', PyInt 3] Map.empty)
     = Some (Inl (PyExc TypeError ''unsupported operand type(s)'')) \<and>
   is_Exception (PyExc TypeError ''unsupported operand type(s)'') \<and>
   run_task demo_parse_obj_as demo_error_record add_target
     (Some (inspect_signature add_target))
     (demo_message [PyStr ''x'', PyStr ''3''] Map.empty) ''%(message)s'' [quiet_middleware]
     = Some (Inr (demo_message [PyStr ''x'', PyInt 3] Map.empty,
          error_result demo_error_record ''%(message)s'' add_target
            (demo_message [PyStr ''x'', PyInt 3] Map.empty)
            (PyExc TypeError ''unsupported operand type(s)''))) \<and>
   is_err (error_result demo_error_record ''%(message)s'' add_target
            (demo_message [PyStr ''x'', PyInt 3] Map.empty)
            (PyExc TypeError ''unsupported operand type(s)'')) \<and>
   run_task demo_parse_obj_as demo_error_record add_target
     (Some (inspect_signature add_target))
     (demo_message [PyStr ''x'', PyStr ''3''] Map.empty) ''%(message)s'' [failing_on_error]
     = Some (Inl (PyExc RuntimeError ''on_error failed''))"
  using run_task_returns[of demo_parse_obj_as "Some (inspect_signature add_target)"
      "demo_message [PyStr ''x'', PyStr ''3''] Map.empty"
      "PyExc TypeError ''unsupported operand type(s)''" demo_error_record add_target
      "''%(message)s''" "[quiet_middleware]"
      "demo_message [PyStr ''x'', PyInt 3] Map.empty" v
      "PyExc RuntimeError ''on_error failed''"]
    run_task_returns[of demo_parse_obj_as "Some (inspect_signature add_target)"
      "demo_message [PyStr ''x'', PyStr ''3''] Map.empty"
      "PyExc TypeError ''unsupported operand type(s)''" demo_error_record add_target
      "''%(message)s''" "[failing_on_error]"
      "demo_message [PyStr ''x'', PyInt 3] Map.empty" v
      "PyExc RuntimeError ''on_error failed''"]
    add_x_3_coerced add_x_3_awaited
  by (simp add: quiet_middleware_def failing_on_error_def error_result_def)

section \<open>Properties of the shutdown\<close>

text \<open>
  C9, counterexample: the claim has the status 1 when the teardown task raised, and 0
  when it completed without raising. A teardown that raised \<^verbatim>\<open>KeyboardInterrupt\<close> passes
  the \<^verbatim>\<open>except Exception\<close> clause: the exception leaves \<^verbatim>\<open>exit_process\<close> and no status
  is computed. A teardown that returned an object whose \<^verbatim>\<open>__str__\<close> raises \<^verbatim>\<open>ValueError\<close>
  gets the status 1, since \<^verbatim>\<open>str(result)\<close> is evaluated inside the \<^verbatim>\<open>try\<close>.
\<close>

theorem exit_process_exitcode_counterexample:
  "snd (exit_process (Inl (PyExc KeyboardInterrupt ''interrupted'')) [1, 2])
     = Inl (PyExc KeyboardInterrupt ''interrupted'') \<and>
   snd (exit_process (Inr (ReturnedObject (Inl (PyExc ValueError ''no text'')))) [1, 2])
     = Inr 1"
  by (simp add: exit_process_def)

text \<open>
  C9, as amended. \<^verbatim>\<open>exit_process\<close> calls \<^verbatim>\<open>sys.exit(0)\<close> when \<^verbatim>\<open>task.result()\<close> returns
  \<^verbatim>\<open>None\<close>, or a value of which \<^verbatim>\<open>str\<close> returns. It calls \<^verbatim>\<open>sys.exit(1)\<close> when
  \<^verbatim>\<open>task.result()\<close>, or \<^verbatim>\<open>str\<close> of the value returned, raises an exception of class
  \<^verbatim>\<open>Exception\<close>. When either raises an exception outside \<^verbatim>\<open>Exception\<close>, that exception
  leaves \<^verbatim>\<open>exit_process\<close>, nothing is logged or cancelled and no status is computed. The
  tasks of the loop do not affect the status.
\<close>

theorem exit_process_exitcode:
  "snd (exit_process (Inr ReturnedNone) all_tasks) = Inr 0 \<and>
   snd (exit_process (Inr (ReturnedObject (Inr text))) all_tasks) = Inr 0 \<and>
   (is_Exception exc \<longrightarrow>
      snd (exit_process (Inl exc) all_tasks) = Inr 1 \<and>
      snd (exit_process (Inr (ReturnedObject (Inl exc))) all_tasks) = Inr 1) \<and>
   (\<not> is_Exception exc \<longrightarrow>
      exit_process (Inl exc) all_tasks = ([], Inl exc) \<and>
      exit_process (Inr (ReturnedObject (Inl exc))) all_tasks = ([], Inl exc)) \<and>
   snd (exit_process task all_tasks) = snd (exit_process task all_tasks')"
proof -
  have "snd (exit_process task all_tasks) = snd (exit_process task all_tasks')"
    by (simp add: exit_process_def Let_def split: sum.splits returned.splits)
  then show ?thesis by (simp add: exit_process_def)
qed

theorem exit_process_exitcode_witness:
  "is_Exception (PyExc RuntimeError ''connection lost'') \<and>
   snd (exit_process (Inl (PyExc RuntimeError ''connection lost'')) [1, 2]) = Inr 1 \<and>
   snd (exit_process (Inr (ReturnedObject (Inr ''closed''))) [1, 2]) = Inr 0 \<and>
   \<not> is_Exception (PyExc AsyncioCancelledError '''') \<and>
   exit_process (Inl (PyExc AsyncioCancelledError '''')) [1, 2]
     = ([], Inl (PyExc AsyncioCancelledError ''''))"
  using exit_process_exitcode[of "[1, 2]" "''closed''" "PyExc RuntimeError ''connection lost''"]
    exit_process_exitcode[of "[1, 2]" "''closed''" "PyExc AsyncioCancelledError ''''"]
  by simp



section \<open>Properties of the worker loop\<close>

lemma process_message_unknown:
  "map_of (available_tasks brk) (bm_task_name message) = None \<Longrightarrow>
   process_message P E brk cli_args sigs message =
     ([Received (bm_task_id message), TaskNotFound (bm_task_name message)], None)"
  by (simp add: process_message_def)

lemma process_message_decode_fails:
  "map_of (available_tasks brk) (bm_task_name message) = Some task \<Longrightarrow>
   formatter_loads brk message = Inl exc \<Longrightarrow>
   process_message P E brk cli_args sigs message =
     (if is_Exception exc
      then ([Received (bm_task_id message), CannotParse (bm_task_id message) exc], None)
      else ([Received (bm_task_id message)], Some (Leaves exc)))"
  by (simp add: process_message_def)

lemma process_message_pre_raises:
  "map_of (available_tasks brk) (bm_task_name message) = Some task \<Longrightarrow>
   formatter_loads brk message = Inr tm \<Longrightarrow>
   pre_execute_loop (middlewares brk) tm = Inl exc \<Longrightarrow>
   process_message P E brk cli_args sigs message =
     ([Received (bm_task_id message)], Some (Leaves exc))"
  by (simp add: process_message_def)


lemma process_message_run_never_returns:
  "map_of (available_tasks brk) (bm_task_name message) = Some task \<Longrightarrow>
   formatter_loads brk message = Inr tm \<Longrightarrow>
   pre_execute_loop (middlewares brk) tm = Inr tm1 \<Longrightarrow>
   run_task P E (original_func task) (sigs (bm_task_name message)) tm1
     (log_collector_format cli_args) (middlewares brk) = None \<Longrightarrow>
   process_message P E brk cli_args sigs message =
     ([Received (bm_task_id message), RunTask (bm_task_name message)], Some NeverReturns)"
  by (simp add: process_message_def)








lemmas demo_eval =
  process_message_def demo_broker_def demo_loads_def raw_message_def demo_args_def
  demo_signatures_def run_task_def parse_params_def add_target_def parse_loop.simps
  Let_def digit_of_def run_sync_def kwargs_get_def await_target_def demo_error_record_def






subsection \<open>Registry check and decoding\<close>

text \<open>
  C2, counterexample: the claim has a message that fails to decode logged and skipped as
  a decode failure whether or not its task is registered. The loop looks the task name up
  first (line 292): the message of the unregistered task \<^verbatim>\<open>ghost\<close>, whose payload does
  not decode, is logged as a task that is not found, and nothing decodes it.
\<close>

theorem unregistered_undecodable_counterexample:
  "formatter_loads (demo_broker []) (raw_message ''id-9'' ''ghost'' ''bad'')
     = Inl (PyExc ValueError ''cannot decode'') \<and>
   process_message demo_parse_obj_as demo_error_record (demo_broker []) demo_args Map.empty
     (raw_message ''id-9'' ''ghost'' ''bad'')
     = ([Received ''id-9'', TaskNotFound ''ghost''], None)"
  by (simp add: process_message_def demo_broker_def demo_loads_def raw_message_def)

text \<open>
  C2, as amended: for every received message the loop first checks whether the task name
  is in the registry and only afterwards decodes. A message of an unregistered task is
  logged as not found and skipped, whatever decoding would do; a message of a registered
  task that fails to decode (with an \<^verbatim>\<open>Exception\<close>) is logged and skipped as a decode
  failure. Neither reaches \<^verbatim>\<open>run_task\<close> or \<^verbatim>\<open>set_result\<close>.
\<close>

theorem process_message_registry_then_decode:
  "(map_of (available_tasks brk) (bm_task_name message) = None \<longrightarrow>
      process_message P E brk cli_args sigs message =
        ([Received (bm_task_id message), TaskNotFound (bm_task_name message)], None)) \<and>
   (map_of (available_tasks brk) (bm_task_name message) \<noteq> None \<and>
    formatter_loads brk message = Inl exc \<and> is_Exception exc \<longrightarrow>
      process_message P E brk cli_args sigs message =
        ([Received (bm_task_id message), CannotParse (bm_task_id message) exc], None))"
  by (auto simp: process_message_unknown process_message_decode_fails)

theorem process_message_registry_then_decode_witness:
  "map_of (available_tasks (demo_broker [])) (bm_task_name (raw_message ''id-2'' ''add'' ''bad''))
     \<noteq> None \<and>
   formatter_loads (demo_broker []) (raw_message ''id-2'' ''add'' ''bad'')
     = Inl (PyExc ValueError ''cannot decode'') \<and>
   is_Exception (PyExc ValueError ''cannot decode'') \<and>
   process_message demo_parse_obj_as demo_error_record (demo_broker []) demo_args Map.empty
     (raw_message ''id-2'' ''add'' ''bad'')
     = ([Received ''id-2'', CannotParse ''id-2'' (PyExc ValueError ''cannot decode'')], None) \<and>
   map_of (available_tasks (demo_broker [])) (bm_task_name (raw_message ''id-7'' ''ghost'' ''ok''))
     = None \<and>
   process_message demo_parse_obj_as demo_error_record (demo_broker []) demo_args Map.empty
     (raw_message ''id-7'' ''ghost'' ''ok'')
     = ([Received ''id-7'', TaskNotFound ''ghost''], None)"
  using process_message_registry_then_decode[of "demo_broker []"
      "raw_message ''id-2'' ''add'' ''bad''" demo_parse_obj_as demo_error_record demo_args
      Map.empty "PyExc ValueError ''cannot decode''"]
    process_message_registry_then_decode[of "demo_broker []"
      "raw_message ''id-7'' ''ghost'' ''ok''" demo_parse_obj_as demo_error_record demo_args
      Map.empty "PyExc ValueError ''cannot decode''"]
  by (simp add: demo_broker_def demo_loads_def raw_message_def)

subsection \<open>Errors of one message and the loop\<close>





subsection \<open>One result for each message that is run\<close>

text \<open>
  C8, counterexample: the claim has exactly one result produced and stored for a message
  whose task is registered and which decodes. With a middleware whose \<^verbatim>\<open>pre_execute\<close>
  raises, such a message reaches neither \<^verbatim>\<open>run_task\<close> nor \<^verbatim>\<open>set_result\<close>: the exception
  leaves the loop.
\<close>

theorem pre_execute_raises_no_result_counterexample:
  "map_of (available_tasks (demo_broker [failing_pre_execute])) ''add'' \<noteq> None \<and>
   formatter_loads (demo_broker [failing_pre_execute]) (raw_message ''id-1'' ''add'' ''ok'')
     = Inr \<lparr>task_id = ''id-1'', task_name = ''add'', labels = Map.empty,
            args = [PyStr ''2'', PyStr ''3''], kwargs = Map.empty\<rparr> \<and>
   process_message demo_parse_obj_as demo_error_record (demo_broker [failing_pre_execute])
     demo_args demo_signatures (raw_message ''id-1'' ''add'' ''ok'')
     = ([Received ''id-1''], Some (Leaves (PyExc RuntimeError ''pre_execute failed'')))"
  by (simp add: process_message_def demo_broker_def demo_loads_def raw_message_def
        failing_pre_execute_def)

text \<open>
  C8, as amended. A message whose task is not in the registry, or whose decoding fails,
  never reaches \<^verbatim>\<open>run_task\<close> and never causes a call of \<^verbatim>\<open>set_result\<close>; nor does a
  message of a registered task that decodes, when a \<^verbatim>\<open>pre_execute\<close> hook raises. A message
  of a registered task that decodes and passes the \<^verbatim>\<open>pre_execute\<close> hooks reaches
  \<^verbatim>\<open>run_task\<close> exactly once. \<^verbatim>\<open>set_result\<close> is then called exactly once, with the result
  that \<^verbatim>\<open>run_task\<close> returned, when \<^verbatim>\<open>run_task\<close> returns a result and every
  \<^verbatim>\<open>post_execute\<close> hook returns; it is not called when \<^verbatim>\<open>run_task\<close> raises or does not
  return, or when a \<^verbatim>\<open>post_execute\<close> hook raises.
\<close>

theorem process_message_one_result:
  "(map_of (available_tasks brk) (bm_task_name message) = None \<or>
    (\<exists>exc. formatter_loads brk message = Inl exc) \<longrightarrow>
      filter is_RunTask (fst (process_message P E brk cli_args sigs message)) = [] \<and>
      filter is_SetResult (fst (process_message P E brk cli_args sigs message)) = []) \<and>
   (map_of (available_tasks brk) (bm_task_name message) = Some task \<and>
    formatter_loads brk message = Inr tm \<and>
    pre_execute_loop (middlewares brk) tm = Inl exc \<longrightarrow>
      filter is_RunTask (fst (process_message P E brk cli_args sigs message)) = [] \<and>
      filter is_SetResult (fst (process_message P E brk cli_args sigs message)) = []) \<and>
   (map_of (available_tasks brk) (bm_task_name message) = Some task \<and>
    formatter_loads brk message = Inr tm \<and>
    pre_execute_loop (middlewares brk) tm = Inr tm1 \<longrightarrow>
      filter is_RunTask (fst (process_message P E brk cli_args sigs message))
        = [RunTask (bm_task_name message)]) \<and>
   (map_of (available_tasks brk) (bm_task_name message) = Some task \<and>
    formatter_loads brk message = Inr tm \<and>
    pre_execute_loop (middlewares brk) tm = Inr tm1 \<and>
    run_task P E (original_func task) (sigs (bm_task_name message)) tm1
      (log_collector_format cli_args) (middlewares brk) = Some (Inr (tm2, r)) \<and>
    post_execute_loop (middlewares brk) tm2 r = Inr () \<longrightarrow>
      filter is_SetResult (fst (process_message P E brk cli_args sigs message))
        = [SetResult (bm_task_id message) r]) \<and>
   (map_of (available_tasks brk) (bm_task_name message) = Some task \<and>
    formatter_loads brk message = Inr tm \<and>
    pre_execute_loop (middlewares brk) tm = Inr tm1 \<and>
    (run_task P E (original_func task) (sigs (bm_task_name message)) tm1
       (log_collector_format cli_args) (middlewares brk) = None \<or>
     (\<exists>exc. run_task P E (original_func task) (sigs (bm_task_name message)) tm1
       (log_collector_format cli_args) (middlewares brk) = Some (Inl exc)) \<or>
     (\<exists>tm2 r exc. run_task P E (original_func task) (sigs (bm_task_name message)) tm1
       (log_collector_format cli_args) (middlewares brk) = Some (Inr (tm2, r)) \<and>
       post_execute_loop (middlewares brk) tm2 r = Inl exc)) \<longrightarrow>
      filter is_SetResult (fst (process_message P E brk cli_args sigs message)) = [])"
proof -
  let ?evs = "fst (process_message P E brk cli_args sigs message)"
  let ?run = "run_task P E (original_func task) (sigs (bm_task_name message)) tm1
       (log_collector_format cli_args) (middlewares brk)"
  have a: "filter is_RunTask ?evs = [] \<and> filter is_SetResult ?evs = []"
    if "map_of (available_tasks brk) (bm_task_name message) = None \<or>
        (\<exists>exc. formatter_loads brk message = Inl exc)"
  proof (cases "map_of (available_tasks brk) (bm_task_name message)")
    case None
    then show ?thesis by (simp add: process_message_unknown)
  next
    case (Some t)
    with that obtain exc where "formatter_loads brk message = Inl exc" by auto
    from process_message_decode_fails[OF Some this] show ?thesis by simp
  qed
  have b: "filter is_RunTask ?evs = [] \<and> filter is_SetResult ?evs = []"
    if h: "map_of (available_tasks brk) (bm_task_name message) = Some task"
       "formatter_loads brk message = Inr tm"
       "pre_execute_loop (middlewares brk) tm = Inl exc"
  proof -
    have "process_message P E brk cli_args sigs message
        = ([Received (bm_task_id message)], Some (Leaves exc))"
      using h by (rule process_message_pre_raises)
    then show ?thesis by simp
  qed
  have pre: "process_message P E brk cli_args sigs message =
      (case ?run of
         None \<Rightarrow>
           ([Received (bm_task_id message), RunTask (bm_task_name message)], Some NeverReturns)
       | Some (Inl exc) \<Rightarrow>
           ([Received (bm_task_id message), RunTask (bm_task_name message)], Some (Leaves exc))
       | Some (Inr (tm2, r)) \<Rightarrow>
           (case post_execute_loop (middlewares brk) tm2 r of
              Inl exc \<Rightarrow>
                ([Received (bm_task_id message), RunTask (bm_task_name message)],
                 Some (Leaves exc))
            | Inr u \<Rightarrow>
                (case set_result brk (bm_task_id message) r of
                   Inr u' \<Rightarrow>
                     ([Received (bm_task_id message), RunTask (bm_task_name message),
                       SetResult (bm_task_id message) r], None)
                 | Inl exc \<Rightarrow>
                     if is_Exception exc
                     then ([Received (bm_task_id message), RunTask (bm_task_name message),
                            SetResult (bm_task_id message) r, CantSetResult exc], None)
                     else ([Received (bm_task_id message), RunTask (bm_task_name message),
                            SetResult (bm_task_id message) r], Some (Leaves exc)))))"
    if "map_of (available_tasks brk) (bm_task_name message) = Some task"
       "formatter_loads brk message = Inr tm"
       "pre_execute_loop (middlewares brk) tm = Inr tm1"
    using that by (simp add: process_message_def)
  have c: "filter is_RunTask ?evs = [RunTask (bm_task_name message)]"
    if h: "map_of (available_tasks brk) (bm_task_name message) = Some task"
       "formatter_loads brk message = Inr tm"
       "pre_execute_loop (middlewares brk) tm = Inr tm1"
    using pre[OF h] by (simp split: option.splits sum.splits prod.splits)
  have d: "filter is_SetResult ?evs = [SetResult (bm_task_id message) r]"
    if h: "map_of (available_tasks brk) (bm_task_name message) = Some task"
       "formatter_loads brk message = Inr tm"
       "pre_execute_loop (middlewares brk) tm = Inr tm1"
      and run: "?run = Some (Inr (tm2, r))"
      and post: "post_execute_loop (middlewares brk) tm2 r = Inr ()"
    using pre[OF h] run post by (simp split: sum.splits)
  have e: "filter is_SetResult ?evs = []"
    if h: "map_of (available_tasks brk) (bm_task_name message) = Some task"
       "formatter_loads brk message = Inr tm"
       "pre_execute_loop (middlewares brk) tm = Inr tm1"
      and no: "?run = None \<or> (\<exists>exc. ?run = Some (Inl exc)) \<or>
         (\<exists>tm2 r exc. ?run = Some (Inr (tm2, r)) \<and>
            post_execute_loop (middlewares brk) tm2 r = Inl exc)"
    using pre[OF h] no by auto
  show ?thesis
    apply (intro conjI impI)
    subgoal using a by blast
    subgoal using a by blast
    subgoal using b by blast
    subgoal using b by blast
    subgoal by (elim conjE) (rule c)
    subgoal by (elim conjE) (rule d)
    subgoal using e by blast
    done
qed

theorem process_message_one_result_witness:
  "map_of (available_tasks (demo_broker [quiet_middleware]))
     (bm_task_name (raw_message ''id-3'' ''add'' ''ok''))
     = Some \<lparr>dt_task_name = ''add'', original_func = add_target\<rparr> \<and>
   run_task demo_parse_obj_as demo_error_record add_target (demo_signatures ''add'')
     \<lparr>task_id = ''id-3'', task_name = ''add'', labels = Map.empty,
      args = [PyStr ''2'', PyStr ''3''], kwargs = Map.empty\<rparr>
     (log_collector_format demo_args) [quiet_middleware]
     = Some (Inr (\<lparr>task_id = ''id-3'', task_name = ''add'', labels = Map.empty,
                   args = [PyInt 2, PyInt 3], kwargs = Map.empty\<rparr>,
                 \<lparr>is_err = False, log = ''adding'', return_value = PyInt 5,
                  execution_time = 1\<rparr>)) \<and>
   filter is_RunTask (fst (process_message demo_parse_obj_as demo_error_record
       (demo_broker [quiet_middleware]) demo_args demo_signatures
       (raw_message ''id-3'' ''add'' ''ok''))) = [RunTask ''add''] \<and>
   filter is_SetResult (fst (process_message demo_parse_obj_as demo_error_record
       (demo_broker [quiet_middleware]) demo_args demo_signatures
       (raw_message ''id-3'' ''add'' ''ok'')))
     = [SetResult ''id-3''
          \<lparr>is_err = False, log = ''adding'', return_value = PyInt 5, execution_time = 1\<rparr>] \<and>
   filter is_RunTask (fst (process_message demo_parse_obj_as demo_error_record
       (demo_broker [quiet_middleware]) demo_args demo_signatures
       (raw_message ''id-2'' ''ghost'' ''ok''))) = []"
proof -
  let ?brk = "demo_broker [quiet_middleware]"
  let ?ok = "raw_message ''id-3'' ''add'' ''ok''"
  let ?t = "\<lparr>dt_task_name = ''add'', original_func = add_target\<rparr>"
  let ?tm = "\<lparr>task_id = ''id-3'', task_name = ''add'', labels = Map.empty,
              args = [PyStr ''2'', PyStr ''3''], kwargs = Map.empty\<rparr>"
  let ?tm2 = "\<lparr>task_id = ''id-3'', task_name = ''add'', labels = Map.empty,
              args = [PyInt 2, PyInt 3], kwargs = Map.empty\<rparr>"
  let ?r = "\<lparr>is_err = False, log = ''adding'', return_value = PyInt 5, execution_time = 1\<rparr>"
  have t: "map_of (available_tasks ?brk) (bm_task_name ?ok) = Some ?t"
    by (simp add: demo_broker_def raw_message_def)
  have d: "formatter_loads ?brk ?ok = Inr ?tm"
    by (simp add: demo_broker_def demo_loads_def raw_message_def)
  have p: "pre_execute_loop (middlewares ?brk) ?tm = Inr ?tm"
    by (simp add: demo_broker_def quiet_middleware_def)
  have run: "run_task demo_parse_obj_as demo_error_record (original_func ?t)
      (demo_signatures (bm_task_name ?ok)) ?tm (log_collector_format demo_args)
      (middlewares ?brk) = Some (Inr (?tm2, ?r))"
    by (simp add: demo_eval quiet_middleware_def)
  have post: "post_execute_loop (middlewares ?brk) ?tm2 ?r = Inr ()"
    by (simp add: demo_broker_def quiet_middleware_def)
  have g: "map_of (available_tasks ?brk) (bm_task_name (raw_message ''id-2'' ''ghost'' ''ok''))
      = None"
    by (simp add: demo_broker_def raw_message_def)
  note t1 = process_message_one_result[of ?brk ?ok demo_parse_obj_as demo_error_record
      demo_args demo_signatures ?t ?tm _ ?tm ?tm2 ?r]
  note t2 = process_message_one_result[where brk = ?brk
      and message = "raw_message ''id-2'' ''ghost'' ''ok''"
      and P = demo_parse_obj_as and E = demo_error_record and cli_args = demo_args
      and sigs = demo_signatures]
  from t1 t d p have 1: "filter is_RunTask (fst (process_message demo_parse_obj_as
      demo_error_record ?brk demo_args demo_signatures ?ok)) = [RunTask (bm_task_name ?ok)]"
    by blast
  from t1 t d p run post have 2: "filter is_SetResult (fst (process_message demo_parse_obj_as
      demo_error_record ?brk demo_args demo_signatures ?ok)) = [SetResult (bm_task_id ?ok) ?r]"
    by blast
  from t2 g have 3: "filter is_RunTask (fst (process_message demo_parse_obj_as
      demo_error_record ?brk demo_args demo_signatures (raw_message ''id-2'' ''ghost'' ''ok'')))
      = []"
    by blast
  from run have run': "run_task demo_parse_obj_as demo_error_record add_target
      (demo_signatures ''add'') ?tm (log_collector_format demo_args) [quiet_middleware]
      = Some (Inr (?tm2, ?r))"
    by (simp add: raw_message_def demo_broker_def)
  from t run' 1 2 3 show ?thesis by (simp add: raw_message_def)
qed

end
